theory Spec2Isabelle
  imports Main "HOL-Library.Word" "HOL-Library.Signed_Division"
begin

section \<open>Data model of the search core (src/engine.cpp)\<close>

text \<open>
  The engine works on a board, pieces and moves that are declared outside
  \<^verbatim>\<open>engine.cpp\<close>. The observations the engine makes of them are kept as they
  are written in the source: a position is a pair of \<^verbatim>\<open>int\<close> coordinates, a move
  has an origin, a destination and a promotion piece, a piece has a type and a colour.
  C++ \<^verbatim>\<open>int\<close> values are modelled by mathematical integers; signed overflow is
  undefined behaviour in the source and is not modelled.
\<close>

datatype Color = WHITE | BLACK

datatype PieceType = PAWN | KNIGHT | BISHOP | ROOK | QUEEN | KING

datatype Piece = Piece (getType: PieceType) (getColor: Color)

datatype Position = Position (row: int) (col: int)

datatype Move = Move (from': Position) (to': Position) (promotion: "PieceType option")

datatype NodeType = EXACT | ALPHA | BETA

text \<open>
  \<^verbatim>\<open>Position()\<close> is the unset position and \<^verbatim>\<open>Move(Position(), Position())\<close> the
  null move. Modelled from the spec: the class \<^verbatim>\<open>Position\<close> is not part of
  \<^verbatim>\<open>engine.cpp\<close>; "origin/destination both unset" is a position outside the
  board, and \<^verbatim>\<open>isValid\<close> holds exactly for the 64 squares.
\<close>

definition nullPosition :: Position where
  "nullPosition = Position (-1) (-1)"

definition nullMove :: Move where
  "nullMove = Move nullPosition nullPosition None"

definition isValid :: "Position \<Rightarrow> bool" where
  "isValid p = (0 \<le> row p \<and> row p < 8 \<and> 0 \<le> col p \<and> col p < 8)"

definition oppositeColor :: "Color \<Rightarrow> Color" where
  "oppositeColor c = (if c = WHITE then BLACK else WHITE)"

text \<open>
  The collaborators of the engine (board, move generation, make/unmake, hashing and
  the transposition table) and the constants of \<^verbatim>\<open>engine.h\<close> are not in
  \<^verbatim>\<open>engine.cpp\<close>; every function of the engine takes them as the parameter
  \<open>R\<close>. The board type \<open>'b\<close> and the table type \<open>'tt\<close> are arbitrary.
  \<^item> \<open>getLegalMoves R b p\<close> is \<^verbatim>\<open>piece->getLegalMoves(board)\<close> for the
    piece standing on \<open>p\<close>;
  \<^item> \<open>makeMove R b m\<close> is \<open>None\<close> when \<^verbatim>\<open>board.makeMove\<close> returns false, and
    the board after the move otherwise; \<^verbatim>\<open>unmakeMove\<close> restores the board before
    the move, so the model goes on with the board it had;
  \<^item> \<open>probe R tt key depth alpha beta\<close> returns the boolean result of
    \<^verbatim>\<open>transpositionTable.probe\<close> and the values it leaves in its two reference
    arguments \<^verbatim>\<open>score\<close> and \<^verbatim>\<open>ttMove\<close>.
\<close>

record ('b, 'tt) collab =
  getPieceAt :: "'b \<Rightarrow> Position \<Rightarrow> Piece option"
  getSideToMove :: "'b \<Rightarrow> Color"
  getEnPassantTarget :: "'b \<Rightarrow> Position"
  generateLegalMoves :: "'b \<Rightarrow> Move list"
  getLegalMoves :: "'b \<Rightarrow> Position \<Rightarrow> Move list"
  isInCheck :: "'b \<Rightarrow> bool"
  isCheckmate :: "'b \<Rightarrow> bool"
  isStalemate :: "'b \<Rightarrow> bool"
  makeMove :: "'b \<Rightarrow> Move \<Rightarrow> 'b option"
  updateHashKey :: "64 word \<Rightarrow> Move \<Rightarrow> 'b \<Rightarrow> 64 word"
  probe :: "'tt \<Rightarrow> 64 word \<Rightarrow> int \<Rightarrow> int \<Rightarrow> int \<Rightarrow> bool \<times> int \<times> Move"
  store :: "'tt \<Rightarrow> 64 word \<Rightarrow> int \<Rightarrow> int \<Rightarrow> NodeType \<Rightarrow> Move \<Rightarrow> 'tt"
  PAWN_VALUE :: int
  KNIGHT_VALUE :: int
  BISHOP_VALUE :: int
  ROOK_VALUE :: int
  QUEEN_VALUE :: int
  KING_VALUE :: int
  MAX_PLY :: int

text \<open>
  The mutable members of \<^verbatim>\<open>Engine\<close>. \<open>killerMoves E ply\<close> is the pair
  \<^verbatim>\<open>(killerMoves[ply][0], killerMoves[ply][1])\<close>. \<open>depthMember\<close> is the
  variable \<^verbatim>\<open>depth\<close> that \<^verbatim>\<open>getMoveScore\<close> reads without declaring it, and
  \<open>gameBoard\<close> is \<^verbatim>\<open>game.getBoard()\<close>.
\<close>

record ('b, 'tt) engine =
  nodesSearched :: nat
  transpositionTable :: 'tt
  killerMoves :: "int \<Rightarrow> Move \<times> Move"
  counterMoves :: "PieceType \<Rightarrow> Color \<Rightarrow> int \<Rightarrow> int \<Rightarrow> Move"
  historyTable :: "Color \<Rightarrow> int \<Rightarrow> int \<Rightarrow> int"
  principalVariation :: "Move list"
  pvTable :: "int \<Rightarrow> Move list"
  depthMember :: int
  gameBoard :: 'b

section \<open>Piece values and MVV-LVA\<close>

fun getPieceValue :: "('b, 'tt) collab \<Rightarrow> PieceType \<Rightarrow> int" where
  "getPieceValue R PAWN = PAWN_VALUE R"
| "getPieceValue R KNIGHT = KNIGHT_VALUE R"
| "getPieceValue R BISHOP = BISHOP_VALUE R"
| "getPieceValue R ROOK = ROOK_VALUE R"
| "getPieceValue R QUEEN = QUEEN_VALUE R"
| "getPieceValue R KING = KING_VALUE R"

text \<open>\<^verbatim>\<open>static_cast<int>(type)\<close>, in the order the table's comments give.\<close>

fun pieceTypeIndex :: "PieceType \<Rightarrow> nat" where
  "pieceTypeIndex PAWN = 0"
| "pieceTypeIndex KNIGHT = 1"
| "pieceTypeIndex BISHOP = 2"
| "pieceTypeIndex ROOK = 3"
| "pieceTypeIndex QUEEN = 4"
| "pieceTypeIndex KING = 5"

definition mvvLvaScores :: "int list list" where
  "mvvLvaScores =
    [[105, 205, 305, 405, 505, 605],
     [104, 204, 304, 404, 504, 604],
     [103, 203, 303, 403, 503, 603],
     [102, 202, 302, 402, 502, 602],
     [101, 201, 301, 401, 501, 601],
     [100, 200, 300, 400, 500, 600]]"

definition getMVVLVAScore :: "PieceType \<Rightarrow> PieceType \<Rightarrow> int" where
  "getMVVLVAScore attacker victim =
     mvvLvaScores ! pieceTypeIndex attacker ! pieceTypeIndex victim"

section \<open>History heuristic\<close>

text \<open>
  \<^verbatim>\<open>historyTable[colorIdx][fromIdx][toIdx]\<close> is an \<^verbatim>\<open>int[2][64][64]\<close>; the model
  indexes it by the colour and the two square indices. The three nested loops of the
  rescaling are folds over the index ranges, and \<^verbatim>\<open>/= 2\<close> on \<^verbatim>\<open>int\<close> truncates
  towards zero (\<open>sdiv\<close>).
\<close>

definition squareIndex :: "Position \<Rightarrow> int" where
  "squareIndex p = row p * 8 + col p"

definition halveEntry ::
  "(Color \<Rightarrow> int \<Rightarrow> int \<Rightarrow> int) \<Rightarrow> Color \<Rightarrow> int \<Rightarrow> int \<Rightarrow> (Color \<Rightarrow> int \<Rightarrow> int \<Rightarrow> int)" where
  "halveEntry h c f t = h(c := (h c)(f := (h c f)(t := h c f t sdiv 2)))"

definition halveHistory :: "(Color \<Rightarrow> int \<Rightarrow> int \<Rightarrow> int) \<Rightarrow> (Color \<Rightarrow> int \<Rightarrow> int \<Rightarrow> int)" where
  "halveHistory h =
     foldl (\<lambda>h1 c. foldl (\<lambda>h2 f. foldl (\<lambda>h3 t. halveEntry h3 c f t) h2 [0..63]) h1 [0..63])
       h [WHITE, BLACK]"

definition addHistoryBonus ::
  "Move \<Rightarrow> int \<Rightarrow> Color \<Rightarrow> (Color \<Rightarrow> int \<Rightarrow> int \<Rightarrow> int) \<Rightarrow> (Color \<Rightarrow> int \<Rightarrow> int \<Rightarrow> int)" where
  "addHistoryBonus move depth color h =
     (let fromIdx = squareIndex (from' move);
          toIdx = squareIndex (to' move);
          bonus = depth * depth
      in h(color := (h color)(fromIdx := (h color fromIdx)(toIdx := h color fromIdx toIdx + bonus))))"

text \<open>
  \<open>addHistoryBonus\<close> is the statement \<^verbatim>\<open>historyTable[..] += bonus\<close>; the table it
  returns is the table "before the global halving".
\<close>

definition updateHistoryScore ::
  "Move \<Rightarrow> int \<Rightarrow> Color \<Rightarrow> (Color \<Rightarrow> int \<Rightarrow> int \<Rightarrow> int) \<Rightarrow> (Color \<Rightarrow> int \<Rightarrow> int \<Rightarrow> int)" where
  "updateHistoryScore move depth color h =
     (let h1 = addHistoryBonus move depth color h
      in if h1 color (squareIndex (from' move)) (squareIndex (to' move)) > 10000
         then halveHistory h1 else h1)"

definition getHistoryScore :: "Move \<Rightarrow> Color \<Rightarrow> (Color \<Rightarrow> int \<Rightarrow> int \<Rightarrow> int) \<Rightarrow> int" where
  "getHistoryScore move color h = h color (squareIndex (from' move)) (squareIndex (to' move))"

section \<open>Static evaluation\<close>

text \<open>The piece-square tables, as \<^verbatim>\<open>engine.cpp\<close> initialises them.\<close>

definition pawnTable :: "int list" where
  "pawnTable =
    [0, 0, 0, 0, 0, 0, 0, 0,
     50, 50, 50, 50, 50, 50, 50, 50,
     10, 10, 20, 30, 30, 20, 10, 10,
     5, 5, 10, 25, 25, 10, 5, 5,
     0, 0, 0, 20, 20, 0, 0, 0,
     5, -5, -10, 0, 0, -10, -5, 5,
     5, 10, 10, -20, -20, 10, 10, 5,
     0, 0, 0, 0, 0, 0, 0, 0]"

definition knightTable :: "int list" where
  "knightTable =
    [-50, -40, -30, -30, -30, -30, -40, -50,
     -40, -20, 0, 0, 0, 0, -20, -40,
     -30, 0, 10, 15, 15, 10, 0, -30,
     -30, 5, 15, 20, 20, 15, 5, -30,
     -30, 0, 15, 20, 20, 15, 0, -30,
     -30, 5, 10, 15, 15, 10, 5, -30,
     -40, -20, 0, 5, 5, 0, -20, -40,
     -50, -40, -30, -30, -30, -30, -40, -50]"

definition bishopTable :: "int list" where
  "bishopTable =
    [-20, -10, -10, -10, -10, -10, -10, -20,
     -10, 0, 0, 0, 0, 0, 0, -10,
     -10, 0, 10, 10, 10, 10, 0, -10,
     -10, 5, 5, 10, 10, 5, 5, -10,
     -10, 0, 5, 10, 10, 5, 0, -10,
     -10, 5, 5, 5, 5, 5, 5, -10,
     -10, 0, 5, 0, 0, 5, 0, -10,
     -20, -10, -10, -10, -10, -10, -10, -20]"

definition rookTable :: "int list" where
  "rookTable =
    [0, 0, 0, 0, 0, 0, 0, 0,
     5, 10, 10, 10, 10, 10, 10, 5,
     -5, 0, 0, 0, 0, 0, 0, -5,
     -5, 0, 0, 0, 0, 0, 0, -5,
     -5, 0, 0, 0, 0, 0, 0, -5,
     -5, 0, 0, 0, 0, 0, 0, -5,
     -5, 0, 0, 0, 0, 0, 0, -5,
     0, 0, 0, 5, 5, 0, 0, 0]"

definition queenTable :: "int list" where
  "queenTable =
    [-20, -10, -10, -5, -5, -10, -10, -20,
     -10, 0, 0, 0, 0, 0, 0, -10,
     -10, 0, 5, 5, 5, 5, 0, -10,
     -5, 0, 5, 5, 5, 5, 0, -5,
     0, 0, 5, 5, 5, 5, 0, -5,
     -10, 5, 5, 5, 5, 5, 0, -10,
     -10, 0, 5, 0, 0, 0, 0, -10,
     -20, -10, -10, -5, -5, -10, -10, -20]"

definition kingMiddleGameTable :: "int list" where
  "kingMiddleGameTable =
    [-30, -40, -40, -50, -50, -40, -40, -30,
     -30, -40, -40, -50, -50, -40, -40, -30,
     -30, -40, -40, -50, -50, -40, -40, -30,
     -30, -40, -40, -50, -50, -40, -40, -30,
     -20, -30, -30, -40, -40, -30, -30, -20,
     -10, -20, -20, -20, -20, -20, -20, -10,
     20, 20, 0, 0, 0, 0, 20, 20,
     20, 30, 10, 0, 0, 10, 30, 20]"

definition kingEndGameTable :: "int list" where
  "kingEndGameTable =
    [-50, -40, -30, -20, -20, -30, -40, -50,
     -30, -20, -10, 0, 0, -10, -20, -30,
     -30, -10, 20, 30, 30, 20, -10, -30,
     -30, -10, 30, 40, 40, 30, -10, -30,
     -30, -10, 30, 40, 40, 30, -10, -30,
     -30, -10, 20, 30, 30, 20, -10, -30,
     -30, -30, 0, 0, 0, 0, -30, -30,
     -50, -30, -30, -30, -30, -30, -30, -50]"

text \<open>
  The two nested loops \<^verbatim>\<open>for row .. for col\<close> visit the 64 squares in row-major
  order; \<open>allSquares\<close> is that order.
\<close>

definition allSquares :: "Position list" where
  "allSquares = concat (map (\<lambda>r. map (\<lambda>c. Position r c) [0..7]) [0..7])"

definition tableIndex :: "Position \<Rightarrow> int" where
  "tableIndex pos = row pos * 8 + col pos"

definition blackTableIndex :: "Position \<Rightarrow> int" where
  "blackTableIndex pos = (7 - row pos) * 8 + col pos"

text \<open>One pass of the loop body of \<^verbatim>\<open>isEndgame\<close>: the state is
  \<^verbatim>\<open>(pieceCount, whiteQueenPresent, blackQueenPresent)\<close>.\<close>

definition isEndgameStep ::
  "('b, 'tt) collab \<Rightarrow> 'b \<Rightarrow> int \<times> bool \<times> bool \<Rightarrow> Position \<Rightarrow> int \<times> bool \<times> bool" where
  "isEndgameStep R board st pos =
     (case st of (pieceCount, whiteQueenPresent, blackQueenPresent) \<Rightarrow>
        (case getPieceAt R board pos of
           None \<Rightarrow> st
         | Some piece \<Rightarrow>
             if getType piece \<noteq> KING \<and> getType piece \<noteq> PAWN then
               (if getType piece = QUEEN then
                  (if getColor piece = WHITE then (pieceCount + 1, True, blackQueenPresent)
                   else (pieceCount + 1, whiteQueenPresent, True))
                else (pieceCount + 1, whiteQueenPresent, blackQueenPresent))
             else st))"

definition isEndgame :: "('b, 'tt) collab \<Rightarrow> 'b \<Rightarrow> bool" where
  "isEndgame R board =
     (case foldl (isEndgameStep R board) (0, False, False) allSquares of
        (pieceCount, whiteQueenPresent, blackQueenPresent) \<Rightarrow>
          (\<not> whiteQueenPresent \<and> \<not> blackQueenPresent) \<or> pieceCount \<le> 6)"

text \<open>\<^verbatim>\<open>pieceValue + positionalValue\<close> of one piece, the \<^verbatim>\<open>switch\<close> of
  \<^verbatim>\<open>evaluatePosition\<close>.\<close>

definition pieceScore :: "('b, 'tt) collab \<Rightarrow> bool \<Rightarrow> Piece \<Rightarrow> Position \<Rightarrow> int" where
  "pieceScore R isEndgamePhase piece pos =
     (let idx = nat (if getColor piece = WHITE then tableIndex pos else blackTableIndex pos)
      in case getType piece of
           PAWN \<Rightarrow> PAWN_VALUE R + pawnTable ! idx
         | KNIGHT \<Rightarrow> KNIGHT_VALUE R + knightTable ! idx
         | BISHOP \<Rightarrow> BISHOP_VALUE R + bishopTable ! idx
         | ROOK \<Rightarrow> ROOK_VALUE R + rookTable ! idx
         | QUEEN \<Rightarrow> QUEEN_VALUE R + queenTable ! idx
         | KING \<Rightarrow> KING_VALUE R +
             (if isEndgamePhase then kingEndGameTable ! idx else kingMiddleGameTable ! idx))"

text \<open>One pass of the loop body of \<^verbatim>\<open>evaluatePosition\<close>: the state is
  \<^verbatim>\<open>(whiteScore, blackScore)\<close>.\<close>

definition evaluateStep ::
  "('b, 'tt) collab \<Rightarrow> 'b \<Rightarrow> bool \<Rightarrow> int \<times> int \<Rightarrow> Position \<Rightarrow> int \<times> int" where
  "evaluateStep R board isEndgamePhase st pos =
     (case st of (whiteScore, blackScore) \<Rightarrow>
        (case getPieceAt R board pos of
           None \<Rightarrow> st
         | Some piece \<Rightarrow>
             if getColor piece = WHITE
             then (whiteScore + pieceScore R isEndgamePhase piece pos, blackScore)
             else (whiteScore, blackScore + pieceScore R isEndgamePhase piece pos)))"

definition evaluatePosition :: "('b, 'tt) collab \<Rightarrow> 'b \<Rightarrow> int" where
  "evaluatePosition R board =
     (let isEndgamePhase = isEndgame R board
      in case foldl (evaluateStep R board isEndgamePhase) (0, 0) allSquares of
           (whiteScore, blackScore) \<Rightarrow>
             if isCheckmate R board then
               (if getSideToMove R board = WHITE then - 100000 else 100000)
             else if isStalemate R board then 0
             else (let score = whiteScore - blackScore
                   in if getSideToMove R board = WHITE then score else - score))"

section \<open>Static exchange evaluation\<close>

text \<open>
  Functions of the engine that may not return a value have an \<open>option\<close> result:
  \<open>None\<close> stands for a call that never returns (the recursion of \<^verbatim>\<open>see\<close> has no
  bound) or that dereferences the null piece at the origin of a move.

  One pass of the scan of \<^verbatim>\<open>see\<close> over a square: the state is
  \<^verbatim>\<open>(leastValuableAttacker, leastValuableAttackerValue, leastValuableAttackerType)\<close>,
  the type \<^verbatim>\<open>PieceType::NONE\<close> being \<open>None\<close>. The inner loop over the piece's
  moves stops at the first move that ends on the target square.
\<close>

definition seeScanStep ::
  "('b, 'tt) collab \<Rightarrow> 'b \<Rightarrow> Position \<Rightarrow> Color \<Rightarrow> Position \<times> int \<times> PieceType option \<Rightarrow> Position
     \<Rightarrow> Position \<times> int \<times> PieceType option" where
  "seeScanStep R board square side st pos =
     (case st of (leastValuableAttacker, leastValuableAttackerValue, leastValuableAttackerType) \<Rightarrow>
        (case getPieceAt R board pos of
           None \<Rightarrow> st
         | Some piece \<Rightarrow>
             if getColor piece \<noteq> side
                \<and> list_ex (\<lambda>move. to' move = square) (getLegalMoves R board pos)
                \<and> getPieceValue R (getType piece) < leastValuableAttackerValue
             then (pos, getPieceValue R (getType piece), Some (getType piece))
             else st))"

definition seeScan ::
  "('b, 'tt) collab \<Rightarrow> 'b \<Rightarrow> Position \<Rightarrow> Color \<Rightarrow> Position \<times> int \<times> PieceType option" where
  "seeScan R board square side =
     foldl (seeScanStep R board square side) (nullPosition, 100000, None) allSquares"

partial_function (option) see ::
  "('b, 'tt) collab \<Rightarrow> 'b \<Rightarrow> Position \<Rightarrow> Color \<Rightarrow> int \<Rightarrow> int option" where
  "see R board square side captureValue =
     (case seeScan R board square side of
        (leastValuableAttacker, leastValuableAttackerValue, leastValuableAttackerType) \<Rightarrow>
          if leastValuableAttackerType = None then Some 0
          else Option.bind
                 (see R board square (if side = WHITE then BLACK else WHITE) leastValuableAttackerValue)
                 (\<lambda>r. Some (max 0 (captureValue - r))))"

declare see.simps [code]

definition seeCapture :: "('b, 'tt) collab \<Rightarrow> 'b \<Rightarrow> Move \<Rightarrow> int option" where
  "seeCapture R board move =
     (case getPieceAt R board (to' move) of
        None \<Rightarrow> Some 0
      | Some capturedPiece \<Rightarrow>
          (case getPieceAt R board (from' move) of
             None \<Rightarrow> Some 0
           | Some movingPiece \<Rightarrow>
               (let captureValue = getPieceValue R (getType capturedPiece)
                in map_option (\<lambda>r. captureValue - r)
                     (see R board (to' move) (getColor movingPiece)
                        (getPieceValue R (getType movingPiece))))))"

definition getDepthAdjustment ::
  "('b, 'tt) collab \<Rightarrow> Move \<Rightarrow> 'b \<Rightarrow> bool \<Rightarrow> int \<Rightarrow> int option" where
  "getDepthAdjustment R move board isPVMove moveIndex =
     (if isPVMove then Some 0
      else case (case getPieceAt R board (to' move) of
                   None \<Rightarrow> Some False
                 | Some capturedPiece \<Rightarrow> map_option (\<lambda>s. s < 0) (seeCapture R board move)) of
             None \<Rightarrow> None
           | Some losingCapture \<Rightarrow>
               if losingCapture then Some (- 1)
               else if moveIndex < 3 then Some 0
               else (let reduction = 0;
                         reduction = (if moveIndex \<ge> 3 then 1 else reduction);
                         reduction = (if moveIndex \<ge> 6 then 2 else reduction);
                         reduction = (if moveIndex \<ge> 12 then 3 else reduction);
                         reduction = min reduction 2
                     in Some (- reduction)))"

section \<open>Move ordering\<close>

text \<open>The comparison of two moves by the rows and columns of their squares, written
  out four times in the source.\<close>

definition sameSquares :: "Move \<Rightarrow> Move \<Rightarrow> bool" where
  "sameSquares a b =
     (row (from' a) = row (from' b) \<and> col (from' a) = col (from' b) \<and>
      row (to' a) = row (to' b) \<and> col (to' a) = col (to' b))"

definition storeKillerMove ::
  "('b, 'tt) collab \<Rightarrow> Move \<Rightarrow> int \<Rightarrow> (int \<Rightarrow> Move \<times> Move) \<Rightarrow> (int \<Rightarrow> Move \<times> Move)" where
  "storeKillerMove R move ply km =
     (if ply \<ge> MAX_PLY R then km
      else if sameSquares (fst (km ply)) move then km
      else km(ply := (move, fst (km ply))))"

definition isKillerMove :: "('b, 'tt) collab \<Rightarrow> (int \<Rightarrow> Move \<times> Move) \<Rightarrow> Move \<Rightarrow> int \<Rightarrow> bool" where
  "isKillerMove R km move ply =
     (if ply \<ge> MAX_PLY R then False
      else sameSquares (fst (km ply)) move \<or> sameSquares (snd (km ply)) move)"

definition storeCounterMove ::
  "('b, 'tt) collab \<Rightarrow> Move \<Rightarrow> Move \<Rightarrow> ('b, 'tt) engine \<Rightarrow> ('b, 'tt) engine" where
  "storeCounterMove R lastMove counterMove E =
     (if \<not> isValid (from' lastMove) \<or> \<not> isValid (to' lastMove) then E
      else case getPieceAt R (gameBoard E) (to' lastMove) of
             None \<Rightarrow> E
           | Some piece \<Rightarrow>
               (let cm = counterMoves E;
                    pt = getType piece; c = getColor piece;
                    fromIdx = squareIndex (from' lastMove);
                    toIdx = squareIndex (to' lastMove)
                in E\<lparr>counterMoves :=
                      cm(pt := (cm pt)(c := (cm pt c)(fromIdx := (cm pt c fromIdx)(toIdx := counterMove))))\<rparr>))"

definition getCounterMove :: "('b, 'tt) collab \<Rightarrow> ('b, 'tt) engine \<Rightarrow> Move \<Rightarrow> Move" where
  "getCounterMove R E lastMove =
     (if \<not> isValid (from' lastMove) \<or> \<not> isValid (to' lastMove) then nullMove
      else case getPieceAt R (gameBoard E) (to' lastMove) of
             None \<Rightarrow> nullMove
           | Some piece \<Rightarrow>
               counterMoves E (getType piece) (getColor piece)
                 (squareIndex (from' lastMove)) (squareIndex (to' lastMove)))"

definition isPVMove :: "Move \<Rightarrow> Move list \<Rightarrow> int \<Rightarrow> bool" where
  "isPVMove move pv ply =
     (if ply < 0 \<or> int (length pv) \<le> ply then False
      else sameSquares (pv ! nat ply) move)"

text \<open>
  Modelled from the spec: \<^verbatim>\<open>getMoveScore\<close> calls an overload
  \<^verbatim>\<open>isPVMove(move, d, ply)\<close> that \<^verbatim>\<open>engine.cpp\<close> does not define; by the spec
  ("Move equals the PV move at this ply for any depth \<le> current depth still retained")
  it compares the move with the principal variation stored for depth \<open>d\<close>.
\<close>

definition isPVMoveAtDepth :: "('b, 'tt) engine \<Rightarrow> Move \<Rightarrow> int \<Rightarrow> int \<Rightarrow> bool" where
  "isPVMoveAtDepth E move d ply = isPVMove move (pvTable E d) ply"

definition getMoveScore ::
  "('b, 'tt) collab \<Rightarrow> ('b, 'tt) engine \<Rightarrow> Move \<Rightarrow> 'b \<Rightarrow> Move \<Rightarrow> Move list \<Rightarrow> int \<Rightarrow> Color \<Rightarrow> Move
     \<Rightarrow> int option" where
  "getMoveScore R E move board ttMove pv ply sideToMove lastMove =
     (if isValid (from' ttMove) \<and> isValid (to' ttMove) \<and> sameSquares ttMove move
      then Some 10000000
      else case find (\<lambda>d. isPVMoveAtDepth E move d ply) (rev [1..depthMember E]) of
             Some d \<Rightarrow> Some (9000000 + d * 1000)
           | None \<Rightarrow>
               (case getPieceAt R board (to' move) of
                  Some capturedPiece \<Rightarrow>
                    (case seeCapture R board move of
                       None \<Rightarrow> None
                     | Some seeScore \<Rightarrow>
                         if seeScore > 0 then Some (4000000 + seeScore)
                         else (case getPieceAt R board (from' move) of
                                 None \<Rightarrow> None
                               | Some movingPiece \<Rightarrow>
                                   Some (3000000 +
                                     getMVVLVAScore (getType movingPiece) (getType capturedPiece))))
                | None \<Rightarrow>
                    if isValid (from' lastMove) \<and> isValid (to' lastMove)
                       \<and> isValid (from' (getCounterMove R E lastMove))
                       \<and> isValid (to' (getCounterMove R E lastMove))
                       \<and> sameSquares (getCounterMove R E lastMove) move
                    then Some 2500000
                    else if isKillerMove R (killerMoves E) move ply then
                      (if sameSquares (fst (killerMoves E ply)) move then Some 2000100
                       else Some 2000000)
                    else Some (getHistoryScore move sideToMove (historyTable E))))"

section \<open>Quiescence search\<close>

text \<open>
  \<^verbatim>\<open>std::sort\<close> with the comparator \<^verbatim>\<open>a.first > b.first\<close>: descending by score.
  The library leaves the order of equal scores open; the model keeps them in the order
  in which they were generated.
\<close>

definition sortDescending :: "(int \<times> Move) list \<Rightarrow> (int \<times> Move) list" where
  "sortDescending scoredMoves = sort_key (\<lambda>sm. - fst sm) scoredMoves"

text \<open>The first loop of \<^verbatim>\<open>quiescenceSearch\<close>: the legal moves that capture.\<close>

fun capturingMovesOf :: "('b, 'tt) collab \<Rightarrow> 'b \<Rightarrow> Move list \<Rightarrow> Move list option" where
  "capturingMovesOf R board [] = Some []"
| "capturingMovesOf R board (move # rest) =
     (case getPieceAt R board (to' move) of
        Some capturedPiece \<Rightarrow> map_option (Cons move) (capturingMovesOf R board rest)
      | None \<Rightarrow>
          (case getPieceAt R board (from' move) of
             None \<Rightarrow> None
           | Some movingPiece \<Rightarrow>
               if getType movingPiece = PAWN \<and> to' move = getEnPassantTarget R board
               then map_option (Cons move) (capturingMovesOf R board rest)
               else capturingMovesOf R board rest))"

text \<open>The second loop: MVV-LVA score of every capture, losing captures penalised, and
  skipped beyond ply 2 when not in check.\<close>

fun qsScoreMoves :: "('b, 'tt) collab \<Rightarrow> 'b \<Rightarrow> int \<Rightarrow> Move list \<Rightarrow> (int \<times> Move) list option" where
  "qsScoreMoves R board ply [] = Some []"
| "qsScoreMoves R board ply (move # rest) =
     (case getPieceAt R board (from' move) of
        None \<Rightarrow> None
      | Some movingPiece \<Rightarrow>
          (case getPieceAt R board (to' move) of
             Some capturedPiece \<Rightarrow>
               (case seeCapture R board move of
                  None \<Rightarrow> None
                | Some seeScore \<Rightarrow>
                    (let moveScore = getMVVLVAScore (getType movingPiece) (getType capturedPiece)
                     in if seeScore < 0 then
                          (if ply > 2 \<and> \<not> isInCheck R board then qsScoreMoves R board ply rest
                           else map_option (Cons (moveScore + seeScore, move))
                                  (qsScoreMoves R board ply rest))
                        else map_option (Cons (moveScore, move)) (qsScoreMoves R board ply rest)))
           | None \<Rightarrow>
               (let moveScore =
                      (if getType movingPiece = PAWN \<and> to' move = getEnPassantTarget R board
                       then getMVVLVAScore (getType movingPiece) PAWN else 0)
                in map_option (Cons (moveScore, move)) (qsScoreMoves R board ply rest))))"

text \<open>
  The third loop: make each move, search the position after it, unmake. The recursive
  call is the parameter \<open>rec\<close>, so that the loop is defined before the search itself;
  \<open>quiescenceSearch\<close> passes itself at \<open>ply + 1\<close>.
\<close>

primrec qsLoop ::
  "('b \<Rightarrow> int \<Rightarrow> int \<Rightarrow> 64 word \<Rightarrow> ('b, 'tt) engine \<Rightarrow> (int \<times> ('b, 'tt) engine) option)
     \<Rightarrow> ('b, 'tt) collab \<Rightarrow> 'b \<Rightarrow> int \<Rightarrow> 64 word \<Rightarrow> (int \<times> Move) list \<Rightarrow> int \<Rightarrow> ('b, 'tt) engine
     \<Rightarrow> (int \<times> ('b, 'tt) engine) option" where
  "qsLoop rec R board beta hashKey [] alpha E = Some (alpha, E)"
| "qsLoop rec R board beta hashKey (scoredMove # rest) alpha E =
     (let move = snd scoredMove
      in case makeMove R board move of
           None \<Rightarrow> qsLoop rec R board beta hashKey rest alpha E
         | Some board' \<Rightarrow>
             (let newHashKey = updateHashKey R hashKey move board'
              in case rec board' (- beta) (- alpha) newHashKey E of
                   None \<Rightarrow> None
                 | Some (v, E') \<Rightarrow>
                     (let score = - v
                      in if score \<ge> beta then Some (beta, E')
                         else qsLoop rec R board beta hashKey rest
                                (if score > alpha then score else alpha) E')))"

lemma qsLoop_cong [fundef_cong]:
  assumes "\<And>b a be h E0. rec b a be h E0 = rec' b a be h E0"
    and "R = R'" and "board = board'" and "beta = beta'" and "hashKey = hashKey'"
    and "ms = ms'" and "alpha = alpha'" and "E = E'"
  shows "qsLoop rec R board beta hashKey ms alpha E = qsLoop rec' R' board' beta' hashKey' ms' alpha' E'"
proof -
  have "rec = rec'" using assms(1) by (intro ext)
  then show ?thesis using assms by simp
qed

function quiescenceSearch ::
  "('b, 'tt) collab \<Rightarrow> 'b \<Rightarrow> int \<Rightarrow> int \<Rightarrow> 64 word \<Rightarrow> int \<Rightarrow> ('b, 'tt) engine
     \<Rightarrow> (int \<times> ('b, 'tt) engine) option" where
  "quiescenceSearch R board alpha beta hashKey ply E =
     (let E1 = E\<lparr>nodesSearched := nodesSearched E + 1\<rparr>
      in if ply \<ge> MAX_PLY R - 1 then Some (evaluatePosition R board, E1)
         else (let standPat = evaluatePosition R board
               in if standPat \<ge> beta then Some (beta, E1)
                  else (let alpha1 = (if standPat > alpha then standPat else alpha);
                            legalMoves = generateLegalMoves R board
                        in case capturingMovesOf R board legalMoves of
                             None \<Rightarrow> None
                           | Some capturingMoves \<Rightarrow>
                               (case qsScoreMoves R board ply capturingMoves of
                                  None \<Rightarrow> None
                                | Some scoredMoves \<Rightarrow>
                                    qsLoop (\<lambda>b a be h E0. quiescenceSearch R b a be h (ply + 1) E0)
                                      R board beta hashKey (sortDescending scoredMoves) alpha1 E1))))"
  by pat_completeness auto
termination
  by (relation "measure (\<lambda>(R, board, alpha, beta, hashKey, ply, E). nat (MAX_PLY R - ply))") auto

declare quiescenceSearch.simps [simp del]

section \<open>Principal variation search\<close>

definition INT_MIN :: int where
  "INT_MIN = - 2147483648"

definition INT_MAX :: int where
  "INT_MAX = 2147483647"

text \<open>The scoring loop of \<^verbatim>\<open>pvSearch\<close>: every legal move gets its ordering score;
  at depth 3 and more a capture whose exchange value is below minus two pawns is
  dropped.\<close>

fun pvsScoreMoves ::
  "('b, 'tt) collab \<Rightarrow> ('b, 'tt) engine \<Rightarrow> 'b \<Rightarrow> int \<Rightarrow> Move \<Rightarrow> int \<Rightarrow> Move \<Rightarrow> Move list
     \<Rightarrow> (int \<times> Move) list option" where
  "pvsScoreMoves R E board depth ttMove ply lastMove [] = Some []"
| "pvsScoreMoves R E board depth ttMove ply lastMove (move # rest) =
     (case getMoveScore R E move board ttMove (principalVariation E) ply
             (getSideToMove R board) lastMove of
        None \<Rightarrow> None
      | Some moveScore \<Rightarrow>
          (case (if depth \<ge> 3 \<and> getPieceAt R board (to' move) \<noteq> None
                 then map_option (\<lambda>seeScore. seeScore < - PAWN_VALUE R * 2) (seeCapture R board move)
                 else Some False) of
             None \<Rightarrow> None
           | Some veryBadCapture \<Rightarrow>
               if veryBadCapture then pvsScoreMoves R E board depth ttMove ply lastMove rest
               else map_option (Cons (moveScore, move))
                      (pvsScoreMoves R E board depth ttMove ply lastMove rest)))"

text \<open>The extension of one move: the node's extension, raised to 1 by a recapture on
  the square of the last move or by a pawn move to the row the source calls the 7th
  rank.\<close>

definition moveExtensionOf ::
  "('b, 'tt) collab \<Rightarrow> 'b \<Rightarrow> int \<Rightarrow> Move \<Rightarrow> Move \<Rightarrow> int" where
  "moveExtensionOf R board extension lastMove move =
     (let moveExtension = extension;
          moveExtension = (if isValid (to' lastMove) \<and> to' move = to' lastMove
                           then max moveExtension 1 else moveExtension);
          moveExtension =
            (case getPieceAt R board (from' move) of
               None \<Rightarrow> moveExtension
             | Some piece \<Rightarrow>
                 if getType piece = PAWN
                    \<and> row (to' move) = (if getSideToMove R board = WHITE then 6 else 1)
                 then max moveExtension 1 else moveExtension)
      in moveExtension)"

text \<open>What a cutoff by a move that lands on an empty square records: the killer move,
  the history bonus and the counter move.\<close>

definition recordCutoff ::
  "('b, 'tt) collab \<Rightarrow> 'b \<Rightarrow> Move \<Rightarrow> int \<Rightarrow> int \<Rightarrow> Move \<Rightarrow> ('b, 'tt) engine \<Rightarrow> ('b, 'tt) engine" where
  "recordCutoff R board move depth ply lastMove E =
     (if getPieceAt R board (to' move) = None then
        (let E1 = E\<lparr>killerMoves := storeKillerMove R move ply (killerMoves E)\<rparr>;
             E2 = E1\<lparr>historyTable :=
                       updateHistoryScore move depth (getSideToMove R board) (historyTable E1)\<rparr>
         in if isValid (from' lastMove) \<and> isValid (to' lastMove)
            then storeCounterMove R lastMove move E2 else E2)
      else E)"

text \<open>The variables the move loops of \<^verbatim>\<open>pvSearch\<close> carry from one move to the next;
  \<open>bestEval\<close> is \<^verbatim>\<open>maxEval\<close> in the maximizing and \<^verbatim>\<open>minEval\<close> in the minimizing
  branch.\<close>

record loopVars =
  alphaVar :: int
  betaVar :: int
  bestEval :: int
  localBestMove :: Move
  pvVar :: "Move list"
  foundPV :: bool
  nodeTypeVar :: NodeType

type_synonym ('b, 'tt) childSearch =
  "'b \<Rightarrow> int \<Rightarrow> int \<Rightarrow> int \<Rightarrow> bool \<Rightarrow> 64 word \<Rightarrow> Move \<Rightarrow> ('b, 'tt) engine
     \<Rightarrow> ((int \<times> Move list) \<times> ('b, 'tt) engine) option"

text \<open>
  The search of one child, common to both branches: a null-window search followed by
  a full-window search when a principal variation has been found, a full-window
  search otherwise. The depth given to the child is \<^verbatim>\<open>depth - 1 + moveExtension\<close>
  in all three calls. The result is \<^verbatim>\<open>eval\<close>, \<^verbatim>\<open>childPV\<close> and the engine.
\<close>

definition searchChild ::
  "('b, 'tt) childSearch \<Rightarrow> 'b \<Rightarrow> int \<Rightarrow> int \<Rightarrow> int \<Rightarrow> int \<Rightarrow> bool \<Rightarrow> bool \<Rightarrow> 64 word \<Rightarrow> Move
     \<Rightarrow> ('b, 'tt) engine \<Rightarrow> ((int \<times> Move list) \<times> ('b, 'tt) engine) option" where
  "searchChild rec board' depth moveExtension alpha beta found childMaximizing newHashKey move E =
     (if found then
        (case rec board' (depth - 1 + moveExtension) (- alpha - 1) (- alpha) childMaximizing
                newHashKey move E of
           None \<Rightarrow> None
         | Some ((v, childPV), E1) \<Rightarrow>
             if - v > alpha \<and> - v < beta then
               (case rec board' (depth - 1 + moveExtension) (- beta) (- alpha) childMaximizing
                       newHashKey move E1 of
                  None \<Rightarrow> None
                | Some ((v2, childPV2), E2) \<Rightarrow> Some ((- v2, childPV2), E2))
             else Some ((- v, childPV), E1))
      else
        (case rec board' (depth - 1 + moveExtension) (- beta) (- alpha) childMaximizing
                newHashKey move E of
           None \<Rightarrow> None
         | Some ((v, childPV), E1) \<Rightarrow> Some ((- v, childPV), E1)))"

text \<open>
  The move loop of the maximizing branch, from index \<open>i\<close> on. \<^verbatim>\<open>newDepth\<close> is
  computed as in the source and, as in the source, not used afterwards.
\<close>

primrec pvsMaxLoop ::
  "('b, 'tt) childSearch \<Rightarrow> ('b, 'tt) collab \<Rightarrow> 'b \<Rightarrow> int \<Rightarrow> 64 word \<Rightarrow> int \<Rightarrow> Move \<Rightarrow> int
     \<Rightarrow> (int \<times> Move) list \<Rightarrow> int \<Rightarrow> loopVars \<Rightarrow> ('b, 'tt) engine
     \<Rightarrow> (loopVars \<times> ('b, 'tt) engine) option" where
  "pvsMaxLoop rec R board depth hashKey ply lastMove extension [] i V E = Some (V, E)"
| "pvsMaxLoop rec R board depth hashKey ply lastMove extension (scoredMove # rest) i V E =
     (let move = snd scoredMove;
          isPV = isPVMove move (principalVariation E) ply;
          moveExtension = moveExtensionOf R board extension lastMove move
      in case (if \<not> foundPV V \<and> i > 0 then getDepthAdjustment R move board isPV i else Some 0) of
           None \<Rightarrow> None
         | Some depthAdjustment \<Rightarrow>
             (let newDepth = max 0 (depth - 1 + moveExtension + depthAdjustment)
              in case makeMove R board move of
                   None \<Rightarrow> pvsMaxLoop rec R board depth hashKey ply lastMove extension rest (i + 1) V E
                 | Some board' \<Rightarrow>
                     (case searchChild rec board' depth moveExtension (alphaVar V) (betaVar V)
                             (foundPV V) False (updateHashKey R hashKey move board') move E of
                        None \<Rightarrow> None
                      | Some ((eval, childPV), E1) \<Rightarrow>
                          (let V1 = (if eval > bestEval V
                                     then V\<lparr>bestEval := eval, localBestMove := move,
                                            pvVar := move # childPV, foundPV := True\<rparr>
                                     else V);
                               V2 = V1\<lparr>alphaVar := max (alphaVar V1) eval\<rparr>
                           in if betaVar V2 \<le> alphaVar V2
                              then Some (V2\<lparr>nodeTypeVar := BETA\<rparr>,
                                         recordCutoff R board move depth ply lastMove E1)
                              else pvsMaxLoop rec R board depth hashKey ply lastMove extension rest
                                     (i + 1) V2 E1))))"

text \<open>The move loop of the minimizing branch. It has no depth adjustment, lowers
  \<^verbatim>\<open>beta\<close>, and sets the node type to \<^verbatim>\<open>ALPHA\<close> on the cutoff.\<close>

primrec pvsMinLoop ::
  "('b, 'tt) childSearch \<Rightarrow> ('b, 'tt) collab \<Rightarrow> 'b \<Rightarrow> int \<Rightarrow> 64 word \<Rightarrow> int \<Rightarrow> Move \<Rightarrow> int
     \<Rightarrow> (int \<times> Move) list \<Rightarrow> loopVars \<Rightarrow> ('b, 'tt) engine
     \<Rightarrow> (loopVars \<times> ('b, 'tt) engine) option" where
  "pvsMinLoop rec R board depth hashKey ply lastMove extension [] V E = Some (V, E)"
| "pvsMinLoop rec R board depth hashKey ply lastMove extension (scoredMove # rest) V E =
     (let move = snd scoredMove;
          moveExtension = moveExtensionOf R board extension lastMove move
      in case makeMove R board move of
           None \<Rightarrow> pvsMinLoop rec R board depth hashKey ply lastMove extension rest V E
         | Some board' \<Rightarrow>
             (case searchChild rec board' depth moveExtension (alphaVar V) (betaVar V)
                     (foundPV V) True (updateHashKey R hashKey move board') move E of
                None \<Rightarrow> None
              | Some ((eval, childPV), E1) \<Rightarrow>
                  (let V1 = (if eval < bestEval V
                             then V\<lparr>bestEval := eval, localBestMove := move,
                                    pvVar := move # childPV, foundPV := True\<rparr>
                             else V);
                       V2 = V1\<lparr>betaVar := min (betaVar V1) eval\<rparr>
                   in if betaVar V2 \<le> alphaVar V2
                      then Some (V2\<lparr>nodeTypeVar := ALPHA\<rparr>,
                                 recordCutoff R board move depth ply lastMove E1)
                      else pvsMinLoop rec R board depth hashKey ply lastMove extension rest V2 E1)))"

lemma pvsMaxLoop_cong [fundef_cong]:
  assumes "\<And>b d a be mx h lm E0. rec b d a be mx h lm E0 = rec' b d a be mx h lm E0"
    and "R = R'" and "board = board'" and "depth = depth'" and "hashKey = hashKey'"
    and "ply = ply'" and "lastMove = lastMove'" and "extension = extension'"
    and "ms = ms'" and "i = i'" and "V = V'" and "E = E'"
  shows "pvsMaxLoop rec R board depth hashKey ply lastMove extension ms i V E
       = pvsMaxLoop rec' R' board' depth' hashKey' ply' lastMove' extension' ms' i' V' E'"
proof -
  have "rec = rec'" using assms(1) by (intro ext)
  then show ?thesis using assms by simp
qed

lemma pvsMinLoop_cong [fundef_cong]:
  assumes "\<And>b d a be mx h lm E0. rec b d a be mx h lm E0 = rec' b d a be mx h lm E0"
    and "R = R'" and "board = board'" and "depth = depth'" and "hashKey = hashKey'"
    and "ply = ply'" and "lastMove = lastMove'" and "extension = extension'"
    and "ms = ms'" and "V = V'" and "E = E'"
  shows "pvsMinLoop rec R board depth hashKey ply lastMove extension ms V E
       = pvsMinLoop rec' R' board' depth' hashKey' ply' lastMove' extension' ms' V' E'"
proof -
  have "rec = rec'" using assms(1) by (intro ext)
  then show ?thesis using assms by simp
qed

text \<open>The end of both branches: the node type becomes \<^verbatim>\<open>EXACT\<close> when the score is
  above \<^verbatim>\<open>originalAlpha\<close> and below the current value of \<^verbatim>\<open>beta\<close>; the entry is
  stored and the score returned with the principal variation.\<close>

definition storeResult ::
  "('b, 'tt) collab \<Rightarrow> 64 word \<Rightarrow> int \<Rightarrow> int \<Rightarrow> loopVars \<Rightarrow> ('b, 'tt) engine
     \<Rightarrow> (int \<times> Move list) \<times> ('b, 'tt) engine" where
  "storeResult R hashKey depth originalAlpha V E =
     (let nodeType = (if bestEval V > originalAlpha \<and> bestEval V < betaVar V
                      then EXACT else nodeTypeVar V)
      in ((bestEval V, pvVar V),
          E\<lparr>transpositionTable :=
               store R (transpositionTable E) hashKey depth (bestEval V) nodeType (localBestMove V)\<rparr>))"

function pvSearch ::
  "('b, 'tt) collab \<Rightarrow> 'b \<Rightarrow> int \<Rightarrow> int \<Rightarrow> int \<Rightarrow> bool \<Rightarrow> 64 word \<Rightarrow> int \<Rightarrow> Move \<Rightarrow> ('b, 'tt) engine
     \<Rightarrow> ((int \<times> Move list) \<times> ('b, 'tt) engine) option" where
  "pvSearch R board depth alpha beta maximizingPlayer hashKey ply lastMove E =
     (let E1 = E\<lparr>nodesSearched := nodesSearched E + 1\<rparr>;
          originalAlpha = alpha;
          probed = (if ply > 0 then probe R (transpositionTable E1) hashKey depth alpha beta
                    else (False, 0, nullMove));
          ttMove = snd (snd probed)
      in if ply > 0 \<and> fst probed then Some ((fst (snd probed), []), E1)
         else if ply \<ge> MAX_PLY R - 1 then Some ((evaluatePosition R board, []), E1)
         else if depth \<le> 0 then
           map_option (\<lambda>(v, E2). ((v, []), E2)) (quiescenceSearch R board alpha beta hashKey ply E1)
         else (let extension = (if isInCheck R board then 1 else 0)
               in if isCheckmate R board \<or> isStalemate R board
                  then Some ((evaluatePosition R board, []), E1)
                  else (let legalMoves = generateLegalMoves R board
                        in if legalMoves = [] then
                             (if isInCheck R board
                              then Some ((if maximizingPlayer then - 100000 + ply else 100000 - ply, []), E1)
                              else Some ((0, []), E1))
                           else (let extension = (if length legalMoves = 1 \<and> depth \<ge> 2
                                                  then max extension 1 else extension)
                                 in case pvsScoreMoves R E1 board depth ttMove ply lastMove legalMoves of
                                      None \<Rightarrow> None
                                    | Some scoredMoves \<Rightarrow>
                                        (let V0 = \<lparr>alphaVar = alpha, betaVar = beta,
                                                   bestEval = (if maximizingPlayer then INT_MIN else INT_MAX),
                                                   localBestMove = hd legalMoves, pvVar = [],
                                                   foundPV = False, nodeTypeVar = ALPHA\<rparr>
                                         in map_option (\<lambda>(V, E2). storeResult R hashKey depth originalAlpha V E2)
                                              (if maximizingPlayer
                                               then pvsMaxLoop
                                                      (\<lambda>b d a be mx h lm E0. pvSearch R b d a be mx h (ply + 1) lm E0)
                                                      R board depth hashKey ply lastMove extension
                                                      (sortDescending scoredMoves) 0 V0 E1
                                               else pvsMinLoop
                                                      (\<lambda>b d a be mx h lm E0. pvSearch R b d a be mx h (ply + 1) lm E0)
                                                      R board depth hashKey ply lastMove extension
                                                      (sortDescending scoredMoves) V0 E1))))))"
  by pat_completeness auto
termination
  by (relation "measure (\<lambda>(R, board, depth, alpha, beta, mx, hashKey, ply, lastMove, E). nat (MAX_PLY R - ply))") auto

declare pvSearch.simps [simp del]

section \<open>A board with kings, knights and pawns\<close>

text \<open>
  To run the engine on concrete positions the collaborators are instantiated with the
  rules of chess for positions that hold only kings, knights and pawns. A pawn moves
  one square forward or captures diagonally; the double step, the en-passant capture,
  promotion and castling are not generated, and in the positions used below the
  player to move has no pawn on its starting rank or one step from promotion.
  Row 0 is White's first rank and White's pawns move towards row 7, the direction
  \<^verbatim>\<open>pvSearch\<close> assumes for its pawn-push extension; column 0 is the a-file.
  A move is legal when it does not leave the mover's king attacked.
\<close>

datatype ChessBoard = ChessBoard (cbPieces: "(Position \<times> Piece) list") (cbSide: Color)

definition cbPieceAt :: "ChessBoard \<Rightarrow> Position \<Rightarrow> Piece option" where
  "cbPieceAt b p = map_of (cbPieces b) p"

definition kingSteps :: "(int \<times> int) list" where
  "kingSteps = [(-1,-1), (-1,0), (-1,1), (0,-1), (0,1), (1,-1), (1,0), (1,1)]"

definition knightSteps :: "(int \<times> int) list" where
  "knightSteps = [(-2,-1), (-2,1), (-1,-2), (-1,2), (1,-2), (1,2), (2,-1), (2,1)]"

definition forward :: "Color \<Rightarrow> int" where
  "forward c = (if c = WHITE then 1 else -1)"

definition shift :: "Position \<Rightarrow> int \<times> int \<Rightarrow> Position" where
  "shift p d = Position (row p + fst d) (col p + snd d)"

definition occupiedBy :: "ChessBoard \<Rightarrow> Position \<Rightarrow> Color \<Rightarrow> bool" where
  "occupiedBy b p c = (case cbPieceAt b p of None \<Rightarrow> False | Some pc \<Rightarrow> getColor pc = c)"

definition stepTargets :: "ChessBoard \<Rightarrow> Position \<Rightarrow> Color \<Rightarrow> (int \<times> int) list \<Rightarrow> Position list" where
  "stepTargets b p c steps = filter (\<lambda>q. isValid q \<and> \<not> occupiedBy b q c) (map (shift p) steps)"

definition pawnTargets :: "ChessBoard \<Rightarrow> Position \<Rightarrow> Color \<Rightarrow> Position list" where
  "pawnTargets b p c =
     filter (\<lambda>q. isValid q \<and> cbPieceAt b q = None) [shift p (forward c, 0)] @
     filter (\<lambda>q. isValid q \<and> occupiedBy b q (oppositeColor c))
       [shift p (forward c, -1), shift p (forward c, 1)]"

definition pseudoMoves :: "ChessBoard \<Rightarrow> Position \<Rightarrow> Move list" where
  "pseudoMoves b p =
     (case cbPieceAt b p of
        None \<Rightarrow> []
      | Some pc \<Rightarrow>
          map (\<lambda>q. Move p q None)
            (if getType pc = KING then stepTargets b p (getColor pc) kingSteps
             else if getType pc = KNIGHT then stepTargets b p (getColor pc) knightSteps
             else if getType pc = PAWN then pawnTargets b p (getColor pc)
             else []))"

definition attackedBy :: "ChessBoard \<Rightarrow> Position \<Rightarrow> Color \<Rightarrow> bool" where
  "attackedBy b q c =
     (list_ex (\<lambda>d. cbPieceAt b (shift q d) = Some (Piece KING c)) kingSteps \<or>
      list_ex (\<lambda>d. cbPieceAt b (shift q d) = Some (Piece KNIGHT c)) knightSteps \<or>
      list_ex (\<lambda>d. cbPieceAt b (shift q d) = Some (Piece PAWN c))
        [(- forward c, -1), (- forward c, 1)])"

definition applyMove :: "ChessBoard \<Rightarrow> Move \<Rightarrow> ChessBoard" where
  "applyMove b m =
     (case cbPieceAt b (from' m) of
        None \<Rightarrow> b
      | Some pc \<Rightarrow>
          ChessBoard ((to' m, pc) # filter (\<lambda>e. fst e \<noteq> from' m \<and> fst e \<noteq> to' m) (cbPieces b))
            (oppositeColor (cbSide b)))"

definition kingSafe :: "ChessBoard \<Rightarrow> Color \<Rightarrow> bool" where
  "kingSafe b c = (\<not> list_ex (\<lambda>e. snd e = Piece KING c \<and> attackedBy b (fst e) (oppositeColor c)) (cbPieces b))"

definition cbLegalMoves :: "ChessBoard \<Rightarrow> Position \<Rightarrow> Move list" where
  "cbLegalMoves b p =
     (case cbPieceAt b p of
        None \<Rightarrow> []
      | Some pc \<Rightarrow> filter (\<lambda>m. kingSafe (applyMove b m) (getColor pc)) (pseudoMoves b p))"

definition cbGenerate :: "ChessBoard \<Rightarrow> Move list" where
  "cbGenerate b = concat (map (\<lambda>p. if occupiedBy b p (cbSide b) then cbLegalMoves b p else []) allSquares)"

text \<open>A position hash computed from scratch; \<open>updateHashKey\<close> below returns the hash
  of the board after the move, which is what the incremental update has to equal.\<close>

definition cbHash :: "ChessBoard \<Rightarrow> 64 word" where
  "cbHash b =
     foldl (\<lambda>h p. case cbPieceAt b p of
                     None \<Rightarrow> h * 13
                   | Some pc \<Rightarrow> h * 13 + word_of_nat (pieceTypeIndex (getType pc)) * 2
                                + (if getColor pc = WHITE then 1 else 2))
       (if cbSide b = WHITE then 1 else 2) allSquares"

text \<open>
  Modelled from the spec: the transposition table is not part of \<^verbatim>\<open>engine.cpp\<close>.
  By the spec an entry is usable at sufficient depth when it is \<^verbatim>\<open>EXACT\<close>, when it
  is \<^verbatim>\<open>ALPHA\<close> and its score is at most the requested alpha, or when it is
  \<^verbatim>\<open>BETA\<close> and its score is at least the requested beta; \<open>store\<close> replaces the
  entry of the key.
\<close>

datatype TTEntry = TTEntry (ttKey: "64 word") (ttDepth: int) (ttScore: int) (ttType: NodeType) (ttBest: Move)

definition ttProbe :: "TTEntry list \<Rightarrow> 64 word \<Rightarrow> int \<Rightarrow> int \<Rightarrow> int \<Rightarrow> bool \<times> int \<times> Move" where
  "ttProbe tt key depth alpha beta =
     (case find (\<lambda>e. ttKey e = key) tt of
        None \<Rightarrow> (False, 0, nullMove)
      | Some e \<Rightarrow>
          (if ttDepth e \<ge> depth \<and>
              (ttType e = EXACT \<or> (ttType e = ALPHA \<and> ttScore e \<le> alpha) \<or> (ttType e = BETA \<and> ttScore e \<ge> beta))
           then (True, ttScore e, ttBest e) else (False, 0, ttBest e)))"

definition ttStore :: "TTEntry list \<Rightarrow> 64 word \<Rightarrow> int \<Rightarrow> int \<Rightarrow> NodeType \<Rightarrow> Move \<Rightarrow> TTEntry list" where
  "ttStore tt key depth score ty best = TTEntry key depth score ty best # filter (\<lambda>e. ttKey e \<noteq> key) tt"

text \<open>The collaborators over this board, with the customary piece values.\<close>

definition chess :: "(ChessBoard, TTEntry list) collab" where
  "chess = \<lparr> getPieceAt = cbPieceAt, getSideToMove = cbSide, getEnPassantTarget = (\<lambda>b. nullPosition),
     generateLegalMoves = cbGenerate, getLegalMoves = cbLegalMoves,
     isInCheck = (\<lambda>b. \<not> kingSafe b (cbSide b)),
     isCheckmate = (\<lambda>b. \<not> kingSafe b (cbSide b) \<and> cbGenerate b = []),
     isStalemate = (\<lambda>b. kingSafe b (cbSide b) \<and> cbGenerate b = []),
     makeMove = (\<lambda>b m. if m \<in> set (cbGenerate b) then Some (applyMove b m) else None),
     updateHashKey = (\<lambda>k m b. cbHash b),
     probe = ttProbe, store = ttStore,
     PAWN_VALUE = 100, KNIGHT_VALUE = 320, BISHOP_VALUE = 330, ROOK_VALUE = 500,
     QUEEN_VALUE = 900, KING_VALUE = 20000, MAX_PLY = 64 \<rparr>"

text \<open>An engine before its first search: empty tables, no principal variation.\<close>

definition newEngine :: "ChessBoard \<Rightarrow> (ChessBoard, TTEntry list) engine" where
  "newEngine b = \<lparr> nodesSearched = 0, transpositionTable = [],
     killerMoves = (\<lambda>ply. (nullMove, nullMove)),
     counterMoves = (\<lambda>pt c f t. nullMove),
     historyTable = (\<lambda>c f t. 0),
     principalVariation = [], pvTable = (\<lambda>d. []), depthMember = 1, gameBoard = b \<rparr>"

section \<open>Notions and positions used in the statements\<close>

text \<open>The index range of \<^verbatim>\<open>historyTable[c][from][to]\<close>.\<close>

definition inTable :: "int \<Rightarrow> int \<Rightarrow> bool" where
  "inTable f t = (0 \<le> f \<and> f \<le> 63 \<and> 0 \<le> t \<and> t \<le> 63)"

text \<open>A history table with the entries 9999, 3, 2 and 7, and the move whose entry is
  9999: a cutoff by it at depth 2 adds 4, which takes the entry to 10003 and halves
  the table.\<close>

definition historyExample :: "Color \<Rightarrow> int \<Rightarrow> int \<Rightarrow> int" where
  "historyExample =
     (\<lambda>c f t. if c = WHITE \<and> f = 0
               then (if t = 1 then 9999 else if t = 2 then 3 else if t = 3 then 2
                     else if t = 4 then 7 else 0)
               else 0)"

definition historyMove :: Move where
  "historyMove = Move (Position 0 0) (Position 0 1) None"

text \<open>
  The colour-flipped mirror of a position, in the words of the spec: piece colours
  swapped, board mirrored top to bottom, side to move swapped. \<open>colorFlippedMirror R P P'\<close>
  says that \<open>P'\<close> is the mirror of \<open>P\<close> as far as the engine can observe the two
  boards; \<open>mirrorBoard\<close> computes the mirror of a board of kings, knights and pawns.
\<close>

definition mirrorPosition :: "Position \<Rightarrow> Position" where
  "mirrorPosition pos = Position (7 - row pos) (col pos)"

definition flipPiece :: "Piece \<Rightarrow> Piece" where
  "flipPiece piece = Piece (getType piece) (oppositeColor (getColor piece))"

definition colorFlippedMirror :: "('b, 'tt) collab \<Rightarrow> 'b \<Rightarrow> 'b \<Rightarrow> bool" where
  "colorFlippedMirror R P P' =
     (list_all (\<lambda>pos. getPieceAt R P' pos = map_option flipPiece (getPieceAt R P (mirrorPosition pos)))
        allSquares
      \<and> getSideToMove R P' = oppositeColor (getSideToMove R P))"

definition mirrorBoard :: "ChessBoard \<Rightarrow> ChessBoard" where
  "mirrorBoard b =
     ChessBoard (map (\<lambda>e. (mirrorPosition (fst e), flipPiece (snd e))) (cbPieces b))
       (oppositeColor (cbSide b))"

text \<open>The sums the two loops of the evaluation compute, square by square.\<close>

definition whitePart :: "('b, 'tt) collab \<Rightarrow> 'b \<Rightarrow> bool \<Rightarrow> Position \<Rightarrow> int" where
  "whitePart R board eg pos =
     (case getPieceAt R board pos of None \<Rightarrow> 0
      | Some piece \<Rightarrow> if getColor piece = WHITE then pieceScore R eg piece pos else 0)"

definition blackPart :: "('b, 'tt) collab \<Rightarrow> 'b \<Rightarrow> bool \<Rightarrow> Position \<Rightarrow> int" where
  "blackPart R board eg pos =
     (case getPieceAt R board pos of None \<Rightarrow> 0
      | Some piece \<Rightarrow> if getColor piece = WHITE then 0 else pieceScore R eg piece pos)"

definition officerAt :: "('b, 'tt) collab \<Rightarrow> 'b \<Rightarrow> Position \<Rightarrow> int" where
  "officerAt R board pos =
     (case getPieceAt R board pos of None \<Rightarrow> 0
      | Some piece \<Rightarrow> if getType piece \<noteq> KING \<and> getType piece \<noteq> PAWN then 1 else 0)"

definition queenAt :: "('b, 'tt) collab \<Rightarrow> 'b \<Rightarrow> Color \<Rightarrow> Position \<Rightarrow> int" where
  "queenAt R board c pos =
     (case getPieceAt R board pos of None \<Rightarrow> 0
      | Some piece \<Rightarrow> if getType piece = QUEEN \<and> getColor piece = c then 1 else 0)"

text \<open>The type of the attacker that the scan of \<^verbatim>\<open>see\<close> finds for \<open>side\<close>, a piece
  of the other colour; \<open>None\<close> when the scan finds no attacker.\<close>

definition attackerType :: "('b, 'tt) collab \<Rightarrow> 'b \<Rightarrow> Position \<Rightarrow> Color \<Rightarrow> PieceType option" where
  "attackerType R board square side = snd (snd (seeScan R board square side))"


text \<open>
  The reference of the spec for the search: a full-width minimax search without
  pruning, to a fixed depth. Scores are White's: White maximizes and Black minimizes
  the static evaluation of the positions at the horizon. \<^verbatim>\<open>evaluatePosition\<close>
  gives that evaluation from the side of the player to move, except at checkmate,
  where its score is White's already.
\<close>

definition whiteScore :: "('b, 'tt) collab \<Rightarrow> 'b \<Rightarrow> int" where
  "whiteScore R board =
     (if isCheckmate R board \<or> getSideToMove R board = WHITE then evaluatePosition R board
      else - evaluatePosition R board)"

fun minimaxSpec :: "('b, 'tt) collab \<Rightarrow> nat \<Rightarrow> 'b \<Rightarrow> int" where
  "minimaxSpec R 0 board = whiteScore R board"
| "minimaxSpec R (Suc d) board =
     (let children = List.map_filter (makeMove R board) (generateLegalMoves R board);
          scores = map (minimaxSpec R d) children
      in if scores = [] then whiteScore R board
         else if getSideToMove R board = WHITE then fold max (tl scores) (hd scores)
         else fold min (tl scores) (hd scores))"

text \<open>
  The positions, with row 0 as the first rank and column 0 as the a-file.
  \<^item> \<open>pawnEnding side\<close>: White Ke1, Pd4; Black Ka8.
  \<^item> \<open>pawnCapture\<close>: White Ke1, Pd4; Black Ka8, Pe5, Pd6; White to move, and
    \<open>dxe5\<close> captures the pawn that the pawn on d6 guards.
  \<^item> \<open>mateInOne\<close>: White Kh6, Ne7, Pg6; Black Kh8; White to move, and \<open>g6g7\<close>
    mates. \<open>mated\<close> is the position after it.
\<close>

definition pawnEnding :: "Color \<Rightarrow> ChessBoard" where
  "pawnEnding side =
     ChessBoard [(Position 0 4, Piece KING WHITE), (Position 3 3, Piece PAWN WHITE),
                 (Position 7 0, Piece KING BLACK)] side"

definition pawnCapture :: ChessBoard where
  "pawnCapture =
     ChessBoard [(Position 0 4, Piece KING WHITE), (Position 3 3, Piece PAWN WHITE),
                 (Position 7 0, Piece KING BLACK), (Position 4 4, Piece PAWN BLACK),
                 (Position 5 3, Piece PAWN BLACK)] WHITE"

definition dxe5 :: Move where
  "dxe5 = Move (Position 3 3) (Position 4 4) None"

definition mateInOne :: ChessBoard where
  "mateInOne =
     ChessBoard [(Position 5 7, Piece KING WHITE), (Position 6 4, Piece KNIGHT WHITE),
                 (Position 5 6, Piece PAWN WHITE), (Position 7 7, Piece KING BLACK)] WHITE"

definition g6g7 :: Move where
  "g6g7 = Move (Position 5 6) (Position 6 6) None"

definition mated :: ChessBoard where
  "mated = applyMove mateInOne g6g7"

text \<open>What a search returns and leaves behind: the score, the principal variation, the
  node counter and the entries of the transposition table, newest first.\<close>

definition outcome ::
  "((int \<times> Move list) \<times> (ChessBoard, TTEntry list) engine) option
     \<Rightarrow> (int \<times> Move list \<times> nat \<times> TTEntry list) option" where
  "outcome r = map_option (\<lambda>((v, pv), E). (v, pv, nodesSearched E, transpositionTable E)) r"

text \<open>A stand-in for the recursive call of the move loop that returns the negated depth
  it is given, so that the \<^verbatim>\<open>eval\<close> of the loop is the depth passed to the child.\<close>

definition depthProbe :: "(ChessBoard, TTEntry list) childSearch" where
  "depthProbe = (\<lambda>b d a be mx h lm E. Some ((- d, []), E))"

definition d4d5 :: Move where
  "d4d5 = Move (Position 3 3) (Position 4 3) None"

definition loopStart :: loopVars where
  "loopStart = \<lparr>alphaVar = - 1000000, betaVar = 1000000, bestEval = INT_MIN,
                 localBestMove = nullMove, pvVar = [], foundPV = False, nodeTypeVar = ALPHA\<rparr>"


section \<open>The history table under rescaling\<close>

lemma sdiv2_nonneg: "0 \<le> (a::int) \<Longrightarrow> a sdiv 2 = a div 2"
  by (simp add: signed_divide_int_def sgn_if)

lemma halve_inner_fold:
  "foldl (\<lambda>h3 t. halveEntry h3 c f t) h [0..int n] c' f' t' =
     (if c' = c \<and> f' = f \<and> 0 \<le> t' \<and> t' \<le> int n then h c' f' t' sdiv 2 else h c' f' t')"
proof (induction n arbitrary: c' f' t')
  case 0
  show ?case by (simp add: halveEntry_def)
next
  case (Suc n)
  have "[0..int (Suc n)] = [0..int n] @ [int n + 1]"
    using upto_rec2[of 0 "int (Suc n)"] by simp
  then show ?case using Suc by (auto simp: halveEntry_def)
qed

lemma halve_middle_fold:
  "foldl (\<lambda>h2 f. foldl (\<lambda>h3 t. halveEntry h3 c f t) h2 [0..63]) h [0..int n] c' f' t' =
     (if c' = c \<and> 0 \<le> f' \<and> f' \<le> int n \<and> 0 \<le> t' \<and> t' \<le> 63
      then h c' f' t' sdiv 2 else h c' f' t')"
proof (induction n arbitrary: c' f' t')
  case 0
  show ?case using halve_inner_fold[of c 0 h 63] by auto
next
  case (Suc n)
  have "[0..int (Suc n)] = [0..int n] @ [int n + 1]"
    using upto_rec2[of 0 "int (Suc n)"] by simp
  then show ?case using Suc halve_inner_fold[of c "int n + 1" _ 63] by auto
qed

text \<open>The three loops halve exactly the entries of the table, each once.\<close>

lemma halveHistory_apply:
  "halveHistory h c f t =
     (if 0 \<le> f \<and> f \<le> 63 \<and> 0 \<le> t \<and> t \<le> 63 then h c f t sdiv 2 else h c f t)"
  using halve_middle_fold[of _ _ 63] by (cases c) (auto simp: halveHistory_def)

text \<open>
  Claim C8, as amended. When the increment by \<^verbatim>\<open>depth * depth\<close> takes the updated
  entry above 10000 and the table is halved, two entries of the table that were
  positive and different before the halving keep their order in the weak sense: the
  entry that was larger is not smaller afterwards. It is still strictly larger
  whenever the two differed by at least 2.
\<close>

theorem history_halving_keeps_order:
  assumes trig: "addHistoryBonus move depth color h color
                   (squareIndex (from' move)) (squareIndex (to' move)) > 10000"
    and r1: "inTable f1 t1" and r2: "inTable f2 t2"
    and pos: "0 < addHistoryBonus move depth color h c2 f2 t2"
    and lt: "addHistoryBonus move depth color h c2 f2 t2 < addHistoryBonus move depth color h c1 f1 t1"
  shows "updateHistoryScore move depth color h c2 f2 t2 \<le> updateHistoryScore move depth color h c1 f1 t1
    \<and> (addHistoryBonus move depth color h c2 f2 t2 + 2 \<le> addHistoryBonus move depth color h c1 f1 t1
       \<longrightarrow> updateHistoryScore move depth color h c2 f2 t2 < updateHistoryScore move depth color h c1 f1 t1)"
proof -
  let ?h1 = "addHistoryBonus move depth color h"
  have u: "updateHistoryScore move depth color h = halveHistory ?h1"
    using trig by (simp add: updateHistoryScore_def Let_def)
  have a: "halveHistory ?h1 c1 f1 t1 = ?h1 c1 f1 t1 div 2"
    using r1 pos lt by (simp add: halveHistory_apply inTable_def sdiv2_nonneg)
  have b: "halveHistory ?h1 c2 f2 t2 = ?h1 c2 f2 t2 div 2"
    using r2 pos by (simp add: halveHistory_apply inTable_def sdiv2_nonneg)
  show ?thesis unfolding u a b using lt by auto
qed

lemma historyExample_before:
  "addHistoryBonus historyMove 2 WHITE historyExample WHITE 0 t =
     (if t = 1 then 10003 else if t = 2 then 3 else if t = 3 then 2 else if t = 4 then 7 else 0)"
  by (simp add: addHistoryBonus_def historyExample_def historyMove_def squareIndex_def Let_def)

lemma historyMove_index:
  "squareIndex (from' historyMove) = 0" "squareIndex (to' historyMove) = 1"
  by (simp_all add: historyMove_def squareIndex_def)

text \<open>The entries 2 and 7 of the example become 1 and 3.\<close>

theorem history_halving_keeps_order_witness:
  "addHistoryBonus historyMove 2 WHITE historyExample WHITE 0 3 = 2
   \<and> addHistoryBonus historyMove 2 WHITE historyExample WHITE 0 4 = 7
   \<and> updateHistoryScore historyMove 2 WHITE historyExample WHITE 0 3
       < updateHistoryScore historyMove 2 WHITE historyExample WHITE 0 4"
proof -
  have trig: "addHistoryBonus historyMove 2 WHITE historyExample WHITE
                (squareIndex (from' historyMove)) (squareIndex (to' historyMove)) > 10000"
    by (simp add: historyMove_index historyExample_before)
  have r1: "inTable 0 4" and r2: "inTable 0 3" by (simp_all add: inTable_def)
  have pos: "0 < addHistoryBonus historyMove 2 WHITE historyExample WHITE 0 3"
    by (simp add: historyExample_before)
  have lt: "addHistoryBonus historyMove 2 WHITE historyExample WHITE 0 3
              < addHistoryBonus historyMove 2 WHITE historyExample WHITE 0 4"
    by (simp add: historyExample_before)
  from history_halving_keeps_order[OF trig r1 r2 pos lt] show ?thesis
    by (simp add: historyExample_before)
qed

text \<open>
  Claim C8 as stated fails: the entries 3 and 2 are different and positive before the
  halving, and both are 1 after it.
\<close>

theorem history_halving_collapse:
  "addHistoryBonus historyMove 2 WHITE historyExample WHITE 0 1 > 10000
   \<and> addHistoryBonus historyMove 2 WHITE historyExample WHITE 0 3 = 2
   \<and> addHistoryBonus historyMove 2 WHITE historyExample WHITE 0 2 = 3
   \<and> updateHistoryScore historyMove 2 WHITE historyExample WHITE 0 3 = 1
   \<and> updateHistoryScore historyMove 2 WHITE historyExample WHITE 0 2 = 1"
proof -
  have u: "updateHistoryScore historyMove 2 WHITE historyExample =
           halveHistory (addHistoryBonus historyMove 2 WHITE historyExample)"
    by (simp add: updateHistoryScore_def Let_def historyMove_index historyExample_before)
  show ?thesis unfolding u
    by (simp add: halveHistory_apply historyExample_before sdiv2_nonneg)
qed

section \<open>The static evaluation of a mirrored position\<close>

lemma upto_0_7: "[0..7] = [0, 1, 2, 3, 4, 5, 6, 7::int]"
  by (simp add: upto.simps)

lemma sum_list_concat_rows:
  fixes xss :: "int list list"
  shows "sum_list (concat xss) = sum_list (map sum_list xss)"
  by (induction xss) simp_all

text \<open>Summing over the squares in mirrored order gives the same sum.\<close>

lemma sum_list_mirror:
  fixes f :: "Position \<Rightarrow> int"
  shows "sum_list (map (\<lambda>pos. f (mirrorPosition pos)) allSquares) = sum_list (map f allSquares)"
proof -
  define g where "g = (\<lambda>r. sum_list (map (\<lambda>c. f (Position r c)) [0..7]))"
  have a: "sum_list (map f allSquares) = sum_list (map g [0..7])"
    by (simp add: allSquares_def sum_list_concat_rows map_concat comp_def g_def)
  have b: "sum_list (map (\<lambda>pos. f (mirrorPosition pos)) allSquares)
             = sum_list (map (\<lambda>r. g (7 - r)) [0..7])"
    by (simp add: allSquares_def sum_list_concat_rows map_concat comp_def g_def mirrorPosition_def)
  show ?thesis unfolding a b by (simp add: upto_0_7)
qed

lemma mirror_sum:
  fixes f g :: "Position \<Rightarrow> int"
  assumes "\<And>pos. pos \<in> set allSquares \<Longrightarrow> f pos = g (mirrorPosition pos)"
  shows "sum_list (map f allSquares) = sum_list (map g allSquares)"
proof -
  have e: "map f allSquares = map (\<lambda>pos. g (mirrorPosition pos)) allSquares"
    by (rule map_cong) (simp_all add: assms)
  show ?thesis by (subst e) (rule sum_list_mirror)
qed

text \<open>The loop of \<^verbatim>\<open>evaluatePosition\<close> adds up the two sides' scores.\<close>

lemma foldl_evaluateStep:
  "foldl (evaluateStep R board eg) (w, b) xs =
     (w + sum_list (map (whitePart R board eg) xs), b + sum_list (map (blackPart R board eg) xs))"
  by (induction xs arbitrary: w b)
     (auto simp: evaluateStep_def whitePart_def blackPart_def split: option.splits)

lemma queenAt_nonneg: "0 \<le> sum_list (map (queenAt R board c) xs)"
  by (induction xs) (auto simp: queenAt_def split: option.splits)

lemma queenAt_ge0: "0 \<le> queenAt R board c x"
  by (simp add: queenAt_def split: option.splits)

lemma isEndgameStep_eq:
  "isEndgameStep R board (n, wq, bq) x =
     (n + officerAt R board x, wq \<or> 0 < queenAt R board WHITE x, bq \<or> 0 < queenAt R board BLACK x)"
proof (cases "getPieceAt R board x")
  case None
  then show ?thesis by (simp add: isEndgameStep_def officerAt_def queenAt_def)
next
  case (Some piece)
  then show ?thesis
    by (cases "getColor piece") (simp_all add: isEndgameStep_def officerAt_def queenAt_def)
qed

text \<open>The loop of \<^verbatim>\<open>isEndgame\<close> counts the pieces other than kings and pawns and
  records whether either side has a queen.\<close>

lemma foldl_isEndgameStep:
  "foldl (isEndgameStep R board) (n, wq, bq) xs =
     (n + sum_list (map (officerAt R board) xs),
      wq \<or> 0 < sum_list (map (queenAt R board WHITE) xs),
      bq \<or> 0 < sum_list (map (queenAt R board BLACK) xs))"
proof (induction xs arbitrary: n wq bq)
  case Nil
  show ?case by simp
next
  case (Cons x xs)
  have w: "0 \<le> sum_list (map (queenAt R board WHITE) xs)"
   and b: "0 \<le> sum_list (map (queenAt R board BLACK) xs)"
    by (rule queenAt_nonneg)+
  have w0: "0 \<le> queenAt R board WHITE x" and b0: "0 \<le> queenAt R board BLACK x"
    by (rule queenAt_ge0)+
  show ?case using w b w0 b0
    by (simp add: isEndgameStep_eq Cons.IH) linarith
qed

lemma isEndgame_sums:
  "isEndgame R board =
     ((\<not> 0 < sum_list (map (queenAt R board WHITE) allSquares)
        \<and> \<not> 0 < sum_list (map (queenAt R board BLACK) allSquares))
      \<or> sum_list (map (officerAt R board) allSquares) \<le> 6)"
  by (simp add: isEndgame_def foldl_isEndgameStep)

lemma flipPiece_sel:
  "getType (flipPiece piece) = getType piece"
  "getColor (flipPiece piece) = oppositeColor (getColor piece)"
  by (simp_all add: flipPiece_def)

lemma oppositeColor_eq:
  "oppositeColor WHITE = BLACK" "oppositeColor BLACK = WHITE"
  "(oppositeColor c = WHITE) = (c = BLACK)" "(oppositeColor c = BLACK) = (c = WHITE)"
  by (cases c; simp add: oppositeColor_def)+

lemma color_neq: "(c \<noteq> WHITE) = (c = BLACK)" "(c \<noteq> BLACK) = (c = WHITE)"
  by (cases c; simp)+

lemmas mirror_simps = flipPiece_sel oppositeColor_eq color_neq

lemma pieceScore_flip:
  "pieceScore R eg (flipPiece piece) pos = pieceScore R eg piece (mirrorPosition pos)"
  by (cases "getColor piece")
     (simp_all add: pieceScore_def Let_def tableIndex_def blackTableIndex_def mirrorPosition_def
        mirror_simps)

lemma mirror_pieces:
  assumes "colorFlippedMirror R P P'" and "pos \<in> set allSquares"
  shows "getPieceAt R P' pos = map_option flipPiece (getPieceAt R P (mirrorPosition pos))"
  using assms by (simp add: colorFlippedMirror_def list_all_iff)

lemma isEndgame_mirror:
  assumes m: "colorFlippedMirror R P P'"
  shows "isEndgame R P' = isEndgame R P"
proof -
  have o: "sum_list (map (officerAt R P') allSquares) = sum_list (map (officerAt R P) allSquares)"
    by (rule mirror_sum)
       (simp add: officerAt_def mirror_pieces[OF m] mirror_simps split: option.splits)
  have w: "sum_list (map (queenAt R P' WHITE) allSquares) = sum_list (map (queenAt R P BLACK) allSquares)"
    by (rule mirror_sum)
       (simp add: queenAt_def mirror_pieces[OF m] mirror_simps split: option.splits)
  have b: "sum_list (map (queenAt R P' BLACK) allSquares) = sum_list (map (queenAt R P WHITE) allSquares)"
    by (rule mirror_sum)
       (simp add: queenAt_def mirror_pieces[OF m] mirror_simps split: option.splits)
  show ?thesis unfolding isEndgame_sums o w b by auto
qed

text \<open>
  Claim C9, as amended. For every position \<open>P\<close> that is not checkmate and its
  colour-flipped mirror \<open>P'\<close> (piece colours swapped, board mirrored top to bottom,
  side to move swapped, and checkmate and stalemate detected alike in both), the
  static evaluator returns the same score for both:
  \<^verbatim>\<open>evaluatePosition(P') = evaluatePosition(P)\<close>. Each evaluation is taken from the
  side of the player to move, and the mirror swaps the player to move together with
  the colours.
\<close>

theorem evaluatePosition_mirror:
  assumes m: "colorFlippedMirror R P P'"
    and cm: "isCheckmate R P' = isCheckmate R P" and sm: "isStalemate R P' = isStalemate R P"
    and nc: "\<not> isCheckmate R P"
  shows "evaluatePosition R P' = evaluatePosition R P"
proof -
  let ?eg = "isEndgame R P"
  have w: "sum_list (map (whitePart R P' ?eg) allSquares) = sum_list (map (blackPart R P ?eg) allSquares)"
    by (rule mirror_sum)
       (simp add: whitePart_def blackPart_def mirror_pieces[OF m] pieceScore_flip mirror_simps
          split: option.splits)
  have b: "sum_list (map (blackPart R P' ?eg) allSquares) = sum_list (map (whitePart R P ?eg) allSquares)"
    by (rule mirror_sum)
       (simp add: whitePart_def blackPart_def mirror_pieces[OF m] pieceScore_flip mirror_simps
          split: option.splits)
  have s: "getSideToMove R P' = oppositeColor (getSideToMove R P)"
    using m by (simp add: colorFlippedMirror_def)
  show ?thesis
    by (cases "getSideToMove R P")
       (simp_all add: evaluatePosition_def Let_def isEndgame_mirror[OF m] foldl_evaluateStep
          w b s cm sm nc mirror_simps)
qed

lemma pawnEnding_mirror:
  "colorFlippedMirror chess (pawnEnding WHITE) (mirrorBoard (pawnEnding WHITE))"
  by code_simp

lemma pawnEnding_eval:
  "evaluatePosition chess (pawnEnding WHITE) = 155"
  "evaluatePosition chess (mirrorBoard (pawnEnding WHITE)) = 155"
  by code_simp+

lemma pawnEnding_not_over:
  "\<not> isCheckmate chess (pawnEnding WHITE)" "\<not> isCheckmate chess (mirrorBoard (pawnEnding WHITE))"
  "\<not> isStalemate chess (pawnEnding WHITE)" "\<not> isStalemate chess (mirrorBoard (pawnEnding WHITE))"
  by code_simp+

text \<open>White Ke1, Pd4 against Black Ka8 with White to move, and its mirror Black Ke8,
  Pd5 against White Ka1 with Black to move.\<close>

theorem evaluatePosition_mirror_witness:
  "colorFlippedMirror chess (pawnEnding WHITE) (mirrorBoard (pawnEnding WHITE))
   \<and> \<not> isCheckmate chess (pawnEnding WHITE)
   \<and> evaluatePosition chess (mirrorBoard (pawnEnding WHITE)) = evaluatePosition chess (pawnEnding WHITE)"
proof -
  have cm: "isCheckmate chess (mirrorBoard (pawnEnding WHITE)) = isCheckmate chess (pawnEnding WHITE)"
    and sm: "isStalemate chess (mirrorBoard (pawnEnding WHITE)) = isStalemate chess (pawnEnding WHITE)"
    using pawnEnding_not_over by simp_all
  from evaluatePosition_mirror[OF pawnEnding_mirror cm sm pawnEnding_not_over(1)]
  show ?thesis using pawnEnding_mirror pawnEnding_not_over(1) by simp
qed

text \<open>
  Claim C9 as stated fails: the position and its mirror both evaluate to 155, the
  pawn that the player to move is ahead, and 155 is not its own negation.
\<close>

theorem evaluatePosition_mirror_not_negated:
  "colorFlippedMirror chess (pawnEnding WHITE) (mirrorBoard (pawnEnding WHITE))
   \<and> evaluatePosition chess (pawnEnding WHITE) = 155
   \<and> evaluatePosition chess (mirrorBoard (pawnEnding WHITE))
       \<noteq> - evaluatePosition chess (pawnEnding WHITE)"
  using pawnEnding_mirror by (simp add: pawnEnding_eval)


section \<open>Termination of the static exchange evaluation\<close>











text \<open>A call of \<^verbatim>\<open>see\<close> that returns had a colour without attacker: the recursion
  looks at the same board with the two sides alternating, and only a scan that finds
  no attacker ends it.\<close>

lemma see_Some_one_side_free:
  assumes "see R board square side captureValue = Some v"
  shows "attackerType R board square WHITE = None \<or> attackerType R board square BLACK = None"
proof (rule see.raw_induct[where P = "\<lambda>R board square side captureValue v.
         attackerType R board square WHITE = None \<or> attackerType R board square BLACK = None",
       OF _ assms])
  fix see' :: "('a, 'b) collab \<Rightarrow> 'a \<Rightarrow> Position \<Rightarrow> Color \<Rightarrow> int \<Rightarrow> int option"
  fix R board square side captureValue v
  assume IH: "\<And>R board square side captureValue v.
                see' R board square side captureValue = Some v \<Longrightarrow>
                attackerType R board square WHITE = None \<or> attackerType R board square BLACK = None"
    and step: "(case seeScan R board square side of
        (leastValuableAttacker, leastValuableAttackerValue, leastValuableAttackerType) \<Rightarrow>
          if leastValuableAttackerType = None then Some 0
          else Option.bind
                 (see' R board square (if side = WHITE then BLACK else WHITE) leastValuableAttackerValue)
                 (\<lambda>r. Some (max 0 (captureValue - r)))) = Some v"
  show "attackerType R board square WHITE = None \<or> attackerType R board square BLACK = None"
  proof (cases "attackerType R board square side = None")
    case True
    then show ?thesis by (cases side) auto
  next
    case False
    with step obtain r where
      "see' R board square (if side = WHITE then BLACK else WHITE)
         (fst (snd (seeScan R board square side))) = Some r"
      by (auto simp: attackerType_def split: prod.splits Option.bind_splits)
    from IH[OF this] show ?thesis .
  qed
qed

text \<open>Without a colour that has no attacker the recursion has no bound: \<^verbatim>\<open>see\<close>
  removes no piece from the board it scans.\<close>

lemma see_diverges:
  assumes "attackerType R board square WHITE \<noteq> None" and "attackerType R board square BLACK \<noteq> None"
  shows "see R board square side captureValue = None"
proof (cases "see R board square side captureValue")
  case None
  then show ?thesis .
next
  case (Some v)
  from see_Some_one_side_free[OF this] assms show ?thesis by simp
qed

section \<open>The ordering score of a capture\<close>










section \<open>The window of the quiescence search\<close>

text \<open>The move loop returns a value between the \<^verbatim>\<open>alpha\<close> it starts from and
  \<^verbatim>\<open>beta\<close>, whatever the recursive calls return.\<close>

lemma qsLoop_window:
  "a < beta \<Longrightarrow> qsLoop rec R board beta hashKey ms a E = Some (v, E') \<Longrightarrow> a \<le> v \<and> v \<le> beta"
proof (induction ms arbitrary: a E)
  case Nil
  then show ?case by simp
next
  case (Cons sm ms)
  show ?case
  proof (cases "makeMove R board (snd sm)")
    case None
    with Cons show ?thesis by simp
  next
    case (Some b')
    show ?thesis
    proof (cases "rec b' (- beta) (- a) (updateHashKey R hashKey (snd sm) b') E")
      case None
      with Some Cons.prems show ?thesis by (simp add: Let_def)
    next
      case (Some r)
      obtain w E1 where r: "r = (w, E1)" by (cases r)
      show ?thesis
      proof (cases "- w \<ge> beta")
        case True
        with Cons.prems \<open>makeMove R board (snd sm) = Some b'\<close> Some r show ?thesis
          by (simp add: Let_def)
      next
        case False
        let ?a' = "if - w > a then - w else a"
        from False Cons.prems(1) have lt: "?a' < beta" by simp
        from False Cons.prems(2) \<open>makeMove R board (snd sm) = Some b'\<close> Some r
        have "qsLoop rec R board beta hashKey ms ?a' E1 = Some (v, E')"
          by (simp add: Let_def)
        from Cons.IH[OF lt this] show ?thesis by (auto split: if_splits)
      qed
    qed
  qed
qed

text \<open>
  Claim C10, as amended. For every call of \<^verbatim>\<open>quiescenceSearch\<close> with
  \<^verbatim>\<open>alpha < beta\<close> below the ply ceiling, \<^verbatim>\<open>ply < MAX_PLY - 1\<close>, the returned
  value \<open>v\<close> satisfies \<^verbatim>\<open>alpha <= v <= beta\<close>: the function returns at most
  \<^verbatim>\<open>beta\<close> on a cutoff, the stand-pat cutoff included, and at least the
  \<^verbatim>\<open>alpha\<close> it was given on every other path. At the ceiling it returns the
  static evaluation as it is.
\<close>

theorem quiescenceSearch_window:
  assumes "alpha < beta" and "ply < MAX_PLY R - 1"
    and "quiescenceSearch R board alpha beta hashKey ply E = Some (v, E')"
  shows "alpha \<le> v \<and> v \<le> beta"
proof (cases "evaluatePosition R board \<ge> beta")
  case True
  with assms show ?thesis
    by (simp add: quiescenceSearch.simps[of R board alpha beta hashKey ply E] Let_def)
next
  case False
  let ?a1 = "if evaluatePosition R board > alpha then evaluatePosition R board else alpha"
  from False assms(1) have lt: "?a1 < beta" by simp
  from assms(2,3) False obtain ms E1 where
    "qsLoop (\<lambda>b a be h E0. quiescenceSearch R b a be h (ply + 1) E0) R board beta hashKey ms ?a1 E1
       = Some (v, E')"
    by (simp add: quiescenceSearch.simps[of R board alpha beta hashKey ply E] Let_def
          split: option.splits)
  from qsLoop_window[OF lt this] show ?thesis by (auto split: if_splits)
qed

lemma quiescenceSearch_ceiling:
  "MAX_PLY R - 1 \<le> ply \<Longrightarrow>
   quiescenceSearch R board alpha beta hashKey ply E =
     Some (evaluatePosition R board, E\<lparr>nodesSearched := nodesSearched E + 1\<rparr>)"
  by (subst quiescenceSearch.simps) (simp add: Let_def)

lemma pawnCapture_quiescence:
  "map_option (\<lambda>(v, E). (v, nodesSearched E))
     (quiescenceSearch chess pawnCapture (- 1000) 2000 (cbHash pawnCapture) 0 (newEngine pawnCapture))
     = Some (- 95, 3)"
  "map_option (\<lambda>(v, E). (v, nodesSearched E))
     (quiescenceSearch chess pawnCapture 1000 2000 (cbHash pawnCapture) 0 (newEngine pawnCapture))
     = Some (1000, 2)"
  by code_simp+

text \<open>The quiescence search of \<open>pawnCapture\<close> at ply 0 in the window
  \<open>(- 1000, 2000)\<close> returns \<open>- 95\<close>.\<close>

theorem quiescenceSearch_window_witness:
  "map_option fst
     (quiescenceSearch chess pawnCapture (- 1000) 2000 (cbHash pawnCapture) 0 (newEngine pawnCapture))
     = Some (- 95)
   \<and> (- 1000 :: int) \<le> - 95 \<and> (- 95 :: int) \<le> 2000"
proof -
  from pawnCapture_quiescence(1) obtain E' where
    r: "quiescenceSearch chess pawnCapture (- 1000) 2000 (cbHash pawnCapture) 0 (newEngine pawnCapture)
          = Some (- 95, E')"
    by auto
  have w: "(- 1000 :: int) < 2000" by simp
  have p: "0 < MAX_PLY chess - 1" by (simp add: chess_def)
  from quiescenceSearch_window[OF w p r] show ?thesis by (simp add: r)
qed

text \<open>
  Claim C10 as stated fails at the ply ceiling: with \<^verbatim>\<open>MAX_PLY\<close> 64, the call at
  ply 63 in the window \<open>(0, 1)\<close> returns the static evaluation 155, which is above
  \<^verbatim>\<open>beta\<close>.
\<close>

theorem quiescenceSearch_ceiling_outside_window:
  "MAX_PLY chess - 1 = 63
   \<and> map_option fst
       (quiescenceSearch chess (pawnEnding WHITE) 0 1 (cbHash (pawnEnding WHITE)) 63
          (newEngine (pawnEnding WHITE))) = Some 155
   \<and> \<not> (155 \<le> (1::int))"
proof -
  have "MAX_PLY chess - 1 \<le> 63" by (simp add: chess_def)
  from quiescenceSearch_ceiling[OF this] show ?thesis
    by (simp add: pawnEnding_eval) (simp add: chess_def)
qed


section \<open>Delta pruning\<close>

lemma pawnCapture_facts:
  "evaluatePosition chess pawnCapture = - 100"
  "\<not> isInCheck chess pawnCapture"
  "capturingMovesOf chess pawnCapture (generateLegalMoves chess pawnCapture) = Some [dxe5]"
  "PAWN_VALUE chess = 100"
  by code_simp+

text \<open>
  Claim C5. \<^verbatim>\<open>quiescenceSearch\<close> as it stands in the source has no delta pruning;
  the test is in the block that follows the function's closing brace. On
  \<open>pawnCapture\<close> White is not in check, the stand-pat score is \<open>- 100\<close> and the
  only capture takes a pawn: \<open>- 100 + 100 + 200 \<le> 1000\<close>, so with \<^verbatim>\<open>alpha\<close> 1000
  the claim has the capture skipped and one node visited. The source makes the
  capture and searches the position after it: it visits two nodes.
\<close>

theorem quiescenceSearch_searches_futile_capture:
  "evaluatePosition chess pawnCapture = - 100
   \<and> \<not> isInCheck chess pawnCapture
   \<and> capturingMovesOf chess pawnCapture (generateLegalMoves chess pawnCapture) = Some [dxe5]
   \<and> evaluatePosition chess pawnCapture + getPieceValue chess PAWN + 200 \<le> 1000
   \<and> map_option (\<lambda>(v, E). (v, nodesSearched E))
        (quiescenceSearch chess pawnCapture 1000 2000 (cbHash pawnCapture) 0 (newEngine pawnCapture))
        = Some (1000, 2)"
  by (simp add: pawnCapture_facts pawnCapture_quiescence)

section \<open>Terminal scores\<close>

lemma evaluatePosition_checkmate:
  "isCheckmate R board \<Longrightarrow>
   evaluatePosition R board = (if getSideToMove R board = WHITE then - 100000 else 100000)"
  by (simp add: evaluatePosition_def Let_def split: prod.splits)

lemma evaluatePosition_stalemate:
  "\<not> isCheckmate R board \<Longrightarrow> isStalemate R board \<Longrightarrow> evaluatePosition R board = 0"
  by (simp add: evaluatePosition_def Let_def split: prod.splits)

text \<open>A node that is checkmate or stalemate returns the static evaluation: the test
  comes before the move generation, and the branch that offsets the mate score by the
  ply is behind it.\<close>

lemma pvSearch_game_over:
  assumes "isCheckmate R board \<or> isStalemate R board" and "0 < depth" and "ply < MAX_PLY R - 1"
    and "\<not> (0 < ply \<and> fst (probe R (transpositionTable E) hashKey depth alpha beta))"
  shows "pvSearch R board depth alpha beta maximizingPlayer hashKey ply lastMove E =
           Some ((evaluatePosition R board, []), E\<lparr>nodesSearched := nodesSearched E + 1\<rparr>)"
  using assms
  by (subst pvSearch.simps) (auto simp: Let_def)

lemma pvSearch_checkmate:
  assumes "isCheckmate R board" and "0 < depth" and "ply < MAX_PLY R - 1"
    and "\<not> (0 < ply \<and> fst (probe R (transpositionTable E) hashKey depth alpha beta))"
  shows "map_option (fst \<circ> fst)
           (pvSearch R board depth alpha beta maximizingPlayer hashKey ply lastMove E) =
           Some (if getSideToMove R board = WHITE then - 100000 else 100000)"
  using assms by (simp add: pvSearch_game_over evaluatePosition_checkmate)

lemma pvSearch_stalemate:
  assumes "isStalemate R board" and "\<not> isCheckmate R board" and "0 < depth"
    and "ply < MAX_PLY R - 1"
    and "\<not> (0 < ply \<and> fst (probe R (transpositionTable E) hashKey depth alpha beta))"
  shows "map_option (fst \<circ> fst)
           (pvSearch R board depth alpha beta maximizingPlayer hashKey ply lastMove E) = Some 0"
  using assms by (simp add: pvSearch_game_over evaluatePosition_stalemate)

lemma mated_facts:
  "isCheckmate chess mated" "getSideToMove chess mated = BLACK"
  "generateLegalMoves chess mateInOne =
     [g6g7, Move (Position 5 7) (Position 4 6) None, Move (Position 5 7) (Position 4 7) None,
      Move (Position 6 4) (Position 4 3) None, Move (Position 6 4) (Position 4 5) None,
      Move (Position 6 4) (Position 5 2) None, Move (Position 6 4) (Position 7 2) None,
      Move (Position 6 4) (Position 7 6) None]"
  by code_simp+

lemma mated_search:
  "outcome (pvSearch chess mated 1 (- 1000000) 1000000 False (cbHash mated) 1 g6g7
              (newEngine mateInOne)) = Some (100000, [], 1, [])"
  by code_simp

lemma mateInOne_search:
  "map_option (\<lambda>(v, pv, n, tt). (v, pv))
     (outcome (pvSearch chess mateInOne 1 (- 1000000) 1000000 True (cbHash mateInOne) 0 nullMove
                 (newEngine mateInOne)))
     = Some (460, [Move (Position 5 7) (Position 4 6) None])"
  by code_simp

text \<open>
  Claim C2. In \<open>mated\<close> Black, the minimizing player, is checkmated. Searched at ply
  1 with depth 1 the node returns 100000, not \<open>100000 - 1\<close>. The depth-1 root search
  of \<open>mateInOne\<close>, in which \<open>g6g7\<close> mates, returns the king move h6-g5 with the
  score 460, not the mating move with \<open>100000 - 1\<close>: the position after the mate
  evaluates to 100000 for the player to move there, which the root negates.
\<close>

theorem pvSearch_mate_score_without_ply:
  "isCheckmate chess mated
   \<and> getSideToMove chess mated = BLACK
   \<and> map_option fst
        (outcome (pvSearch chess mated 1 (- 1000000) 1000000 False (cbHash mated) 1 g6g7
                    (newEngine mateInOne))) = Some 100000
   \<and> g6g7 \<in> set (generateLegalMoves chess mateInOne)
   \<and> map_option (\<lambda>(v, pv, n, tt). (v, pv))
        (outcome (pvSearch chess mateInOne 1 (- 1000000) 1000000 True (cbHash mateInOne) 0 nullMove
                    (newEngine mateInOne)))
        = Some (460, [Move (Position 5 7) (Position 4 6) None])"
  by (simp add: mated_facts mated_search mateInOne_search)

section \<open>The node type stored in the transposition table\<close>

text \<open>In the minimizing loop \<^verbatim>\<open>beta\<close> never exceeds \<^verbatim>\<open>minEval\<close>, and the node
  type stays \<^verbatim>\<open>ALPHA\<close>.\<close>

lemma pvsMinLoop_invariant:
  assumes "betaVar V \<le> bestEval V" and "nodeTypeVar V = ALPHA"
    and "pvsMinLoop rec R board depth hashKey ply lastMove extension ms V E = Some (V', E')"
  shows "betaVar V' \<le> bestEval V' \<and> nodeTypeVar V' = ALPHA"
  using assms
proof (induction ms arbitrary: V E)
  case Nil
  then show ?case by simp
next
  case (Cons sm ms)
  show ?case
  proof (cases "makeMove R board (snd sm)")
    case None
    with Cons.prems Cons.IH show ?thesis by (simp add: Let_def)
  next
    case (Some b')
    let ?sc = "searchChild rec b' depth (moveExtensionOf R board extension lastMove (snd sm))
                 (alphaVar V) (betaVar V) (foundPV V) True
                 (updateHashKey R hashKey (snd sm) b') (snd sm) E"
    show ?thesis
    proof (cases ?sc)
      case None
      with Some Cons.prems show ?thesis by (simp add: Let_def)
    next
      case (Some r)
      obtain eval childPV E1 where r: "r = ((eval, childPV), E1)" by (cases r) auto
      let ?V1 = "if eval < bestEval V
                 then V\<lparr>bestEval := eval, localBestMove := snd sm, pvVar := snd sm # childPV,
                        foundPV := True\<rparr>
                 else V"
      let ?V2 = "?V1\<lparr>betaVar := min (betaVar ?V1) eval\<rparr>"
      have inv2: "betaVar ?V2 \<le> bestEval ?V2" "nodeTypeVar ?V2 = ALPHA"
        using Cons.prems(1,2) by auto
      show ?thesis
      proof (cases "betaVar ?V2 \<le> alphaVar ?V2")
        case True
        with Cons.prems(3) \<open>makeMove R board (snd sm) = Some b'\<close> Some r
        have "V' = ?V2\<lparr>nodeTypeVar := ALPHA\<rparr>" by (simp add: Let_def)
        with inv2 show ?thesis by simp
      next
        case False
        with Cons.prems(3) \<open>makeMove R board (snd sm) = Some b'\<close> Some r
        have "pvsMinLoop rec R board depth hashKey ply lastMove extension ms ?V2 E1 = Some (V', E')"
          by (simp add: Let_def)
        from Cons.IH[OF inv2 this] show ?thesis .
      qed
    qed
  qed
qed

lemma storeResult_minimizing:
  assumes "betaVar V \<le> bestEval V" and "nodeTypeVar V = ALPHA"
  shows "transpositionTable (snd (storeResult R hashKey depth originalAlpha V E)) =
           store R (transpositionTable E) hashKey depth (bestEval V) ALPHA (localBestMove V)"
  using assms by (simp add: storeResult_def Let_def)

text \<open>Every minimizing node that searches its moves stores its score as
  \<^verbatim>\<open>ALPHA\<close>, wherever the score lies.\<close>

lemma pvSearch_minimizing_stores_ALPHA:
  assumes ret: "pvSearch R board depth alpha beta False hashKey ply lastMove E = Some ((v, pv), E')"
    and miss: "\<not> (0 < ply \<and> fst (probe R (transpositionTable E) hashKey depth alpha beta))"
    and ply: "ply < MAX_PLY R - 1" and depth: "0 < depth"
    and playing: "\<not> isCheckmate R board" "\<not> isStalemate R board" "generateLegalMoves R board \<noteq> []"
    and beta: "beta \<le> INT_MAX"
  shows "\<exists>tt best. transpositionTable E' = store R tt hashKey depth v ALPHA best"
proof -
  let ?E1 = "E\<lparr>nodesSearched := nodesSearched E + 1\<rparr>"
  let ?V0 = "\<lparr>alphaVar = alpha, betaVar = beta, bestEval = INT_MAX,
              localBestMove = hd (generateLegalMoves R board), pvVar = [],
              foundPV = False, nodeTypeVar = ALPHA\<rparr>"
  from ret miss ply depth playing obtain rec ext ms V E2 where
    loop: "pvsMinLoop rec R board depth hashKey ply lastMove ext ms ?V0 ?E1 = Some (V, E2)"
    and res: "storeResult R hashKey depth alpha V E2 = ((v, pv), E')"
    by (subst (asm) pvSearch.simps) (auto simp: Let_def split: option.splits if_splits)
  have "betaVar ?V0 \<le> bestEval ?V0" "nodeTypeVar ?V0 = ALPHA" using beta by simp_all
  from pvsMinLoop_invariant[OF this loop] have inv: "betaVar V \<le> bestEval V" "nodeTypeVar V = ALPHA"
    by simp_all
  from res have "v = bestEval V" and "E' = snd (storeResult R hashKey depth alpha V E2)"
    by (auto simp: storeResult_def Let_def)
  with storeResult_minimizing[OF inv, of R hashKey depth alpha E2] show ?thesis by auto
qed

lemma pawnEnding_black_search:
  "outcome (pvSearch chess (pawnEnding BLACK) 1 (- 1000000) 1000000 False
              (cbHash (pawnEnding BLACK)) 0 nullMove (newEngine (pawnEnding BLACK)))
     = Some (- 145, [Move (Position 7 0) (Position 7 1) None], 11,
             [TTEntry (cbHash (pawnEnding BLACK)) 1 (- 145) ALPHA
                (Move (Position 7 0) (Position 7 1) None)])"
  by code_simp

text \<open>
  Claim C7. The depth-1 search of \<open>pawnEnding BLACK\<close>, a minimizing node, in the
  window \<open>(- 1000000, 1000000)\<close> returns \<open>- 145\<close>, strictly inside the window given
  at entry, and the entry it stores is classified \<^verbatim>\<open>ALPHA\<close>, not \<^verbatim>\<open>EXACT\<close>: the
  minimizing branch compares the score with the \<^verbatim>\<open>beta\<close> it has lowered in the
  loop, not with the \<^verbatim>\<open>beta\<close> given at entry.
\<close>

theorem pvSearch_minimizing_never_exact:
  "map_option (\<lambda>(v, pv, n, tt). (v, map ttType tt))
     (outcome (pvSearch chess (pawnEnding BLACK) 1 (- 1000000) 1000000 False
                 (cbHash (pawnEnding BLACK)) 0 nullMove (newEngine (pawnEnding BLACK))))
     = Some (- 145, [ALPHA])
   \<and> (- 1000000 :: int) < - 145 \<and> (- 145 :: int) < 1000000"
  by (simp add: pawnEnding_black_search)

section \<open>The search against full-width minimax\<close>

lemma pawnEnding_minimax:
  "minimaxSpec chess 1 (pawnEnding BLACK) = 125"
  "minimaxSpec chess 2 (pawnEnding WHITE) = 145"
  by code_simp+

lemma pawnEnding_black_scores:
  "map (\<lambda>m. (to' m, whiteScore chess (applyMove (pawnEnding BLACK) m)))
     (generateLegalMoves chess (pawnEnding BLACK))
     = [(Position 6 0, 135), (Position 6 1, 125), (Position 7 1, 145)]"
  by code_simp

lemma pawnEnding_black_score:
  "map_option (\<lambda>(v, pv, n, tt). (v, pv))
     (outcome (pvSearch chess (pawnEnding BLACK) 1 (- 1000000) 1000000 False
                 (cbHash (pawnEnding BLACK)) 0 nullMove (newEngine (pawnEnding BLACK))))
     = Some (- 145, [Move (Position 7 0) (Position 7 1) None])"
  by (simp add: pawnEnding_black_search)

lemma pawnEnding_white_search:
  "map_option (\<lambda>(v, pv, n, tt). (v, ttKey (hd tt), sort (map ttKey (tl tt)), map ttDepth tt))
     (outcome (pvSearch chess (pawnEnding WHITE) 2 (- 1000000) 1000000 True
                 (cbHash (pawnEnding WHITE)) 0 nullMove (newEngine (pawnEnding WHITE))))
     = Some (165, cbHash (pawnEnding WHITE),
             sort (map cbHash (map (applyMove (pawnEnding WHITE))
                                 (generateLegalMoves chess (pawnEnding WHITE)))),
             [2, 1, 1, 1, 1, 1, 1])"
  by code_simp

lemma pawnEnding_white_score:
  "map_option fst
     (outcome (pvSearch chess (pawnEnding WHITE) 2 (- 1000000) 1000000 True
                 (cbHash (pawnEnding WHITE)) 0 nullMove (newEngine (pawnEnding WHITE))))
     = Some 165"
  using pawnEnding_white_search
  by (cases "outcome (pvSearch chess (pawnEnding WHITE) 2 (- 1000000) 1000000 True
                 (cbHash (pawnEnding WHITE)) 0 nullMove (newEngine (pawnEnding WHITE)))")
     (simp_all add: case_prod_beta)

text \<open>
  Claim C1. In \<open>pawnEnding BLACK\<close> Black has three king moves, to a7, b7 and b8,
  after which White's static score is 135, 125 and 145; no capture, check or
  extension is involved, and the table is empty. Full-width minimax to depth 1 gives
  125, Black's best. The search with the full window returns \<open>- 145\<close>, which is
  neither 125 nor its negation, and its principal variation is the move to b8, the
  one that is best for White: the minimizing branch negates the score of the child,
  which is already the score of the player to move there, and then minimizes. With
  White to move and depth 2 minimax gives 145 and the search 165: the Black nodes
  below the root choose White's best reply.
\<close>

theorem pvSearch_differs_from_minimax:
  "minimaxSpec chess 1 (pawnEnding BLACK) = 125
   \<and> map_option (\<lambda>(v, pv, n, tt). (v, pv))
        (outcome (pvSearch chess (pawnEnding BLACK) 1 (- 1000000) 1000000 False
                    (cbHash (pawnEnding BLACK)) 0 nullMove (newEngine (pawnEnding BLACK))))
        = Some (- 145, [Move (Position 7 0) (Position 7 1) None])
   \<and> minimaxSpec chess 2 (pawnEnding WHITE) = 145
   \<and> map_option fst
        (outcome (pvSearch chess (pawnEnding WHITE) 2 (- 1000000) 1000000 True
                    (cbHash (pawnEnding WHITE)) 0 nullMove (newEngine (pawnEnding WHITE))))
        = Some 165"
  by (intro conjI pawnEnding_minimax pawnEnding_black_score pawnEnding_white_score)

section \<open>Late-move reduction\<close>

text \<open>The adjustment that \<^verbatim>\<open>getDepthAdjustment\<close> computes for a move that is neither
  a principal-variation move nor a capture.\<close>

lemma getDepthAdjustment_quiet:
  assumes "\<not> isPV" and "getPieceAt R board (to' move) = None"
  shows "getDepthAdjustment R move board isPV i =
           Some (if i < 3 then 0 else if i < 6 then - 1 else - 2)"
  using assms by (simp add: getDepthAdjustment_def Let_def)

lemma pawnEnding_white_table:
  "map_option (\<lambda>(v, pv, n, tt). (ttKey (hd tt), sort (map ttKey (tl tt)), map ttDepth tt))
     (outcome (pvSearch chess (pawnEnding WHITE) 2 (- 1000000) 1000000 True
                 (cbHash (pawnEnding WHITE)) 0 nullMove (newEngine (pawnEnding WHITE))))
     = Some (cbHash (pawnEnding WHITE),
             sort (map cbHash (map (applyMove (pawnEnding WHITE))
                                 (generateLegalMoves chess (pawnEnding WHITE)))),
             [2, 1, 1, 1, 1, 1, 1])"
  using pawnEnding_white_search
  by (cases "outcome (pvSearch chess (pawnEnding WHITE) 2 (- 1000000) 1000000 True
                 (cbHash (pawnEnding WHITE)) 0 nullMove (newEngine (pawnEnding WHITE)))")
     (simp_all add: case_prod_beta)

lemma pawnEnding_white_moves:
  "map to' (generateLegalMoves chess (pawnEnding WHITE)) =
     [Position 0 3, Position 0 5, Position 1 3, Position 1 4, Position 1 5, Position 4 3]"
  "list_all (\<lambda>m. getPieceAt chess (pawnEnding WHITE) (to' m) = None)
     (generateLegalMoves chess (pawnEnding WHITE))"
  by code_simp+

lemma depthProbe_loop:
  "getDepthAdjustment chess d4d5 (pawnEnding WHITE) False 3 = Some (- 1)"
  "map_option (\<lambda>(V, E). bestEval V)
     (pvsMaxLoop depthProbe chess (pawnEnding WHITE) 5 (cbHash (pawnEnding WHITE)) 0 nullMove 0
        [(0, d4d5)] 3 loopStart (newEngine (pawnEnding WHITE))) = Some 4"
  "map_option (\<lambda>(V, E). bestEval V)
     (pvsMaxLoop depthProbe chess (pawnEnding WHITE) 5 (cbHash (pawnEnding WHITE)) 0 nullMove 0
        [(0, d4d5)] 12 loopStart (newEngine (pawnEnding WHITE))) = Some 4"
  by code_simp+

lemma pawnEnding_white_count:
  "length (generateLegalMoves chess (pawnEnding WHITE)) = 6"
  using arg_cong[OF pawnEnding_white_moves(1), of length] by simp

text \<open>
  Claim C3. \<^verbatim>\<open>pvSearch\<close> computes \<^verbatim>\<open>newDepth\<close> from the depth adjustment and then
  passes \<^verbatim>\<open>depth - 1 + moveExtension\<close> to the child in every call. In
  \<open>pawnEnding WHITE\<close> White, the maximizing player, has six moves, none a capture
  and none a principal-variation move, and no extension applies. After the search to
  depth 2 the table holds the entry of the root, of depth 2, and an entry of depth 1
  for the position after each of the six moves, whatever their order: the three
  moves at index 3, 4 and 5 were searched with depth 1, where the claim has depth 0,
  a quiescence search that stores nothing. In the move loop itself, at depth 5 the
  child of a quiet move at index 3 or 12 is given depth 4, although the adjustment
  computed for index 3 is \<open>- 1\<close>.
\<close>

theorem pvSearch_children_not_reduced:
  "length (generateLegalMoves chess (pawnEnding WHITE)) = 6
   \<and> list_all (\<lambda>m. getPieceAt chess (pawnEnding WHITE) (to' m) = None)
        (generateLegalMoves chess (pawnEnding WHITE))
   \<and> map_option (\<lambda>(v, pv, n, tt). (ttKey (hd tt), sort (map ttKey (tl tt)), map ttDepth tt))
        (outcome (pvSearch chess (pawnEnding WHITE) 2 (- 1000000) 1000000 True
                    (cbHash (pawnEnding WHITE)) 0 nullMove (newEngine (pawnEnding WHITE))))
        = Some (cbHash (pawnEnding WHITE),
                sort (map cbHash (map (applyMove (pawnEnding WHITE))
                                    (generateLegalMoves chess (pawnEnding WHITE)))),
                [2, 1, 1, 1, 1, 1, 1])
   \<and> getDepthAdjustment chess d4d5 (pawnEnding WHITE) False 3 = Some (- 1)
   \<and> map_option (\<lambda>(V, E). bestEval V)
        (pvsMaxLoop depthProbe chess (pawnEnding WHITE) 5 (cbHash (pawnEnding WHITE)) 0 nullMove 0
           [(0, d4d5)] 3 loopStart (newEngine (pawnEnding WHITE))) = Some 4
   \<and> map_option (\<lambda>(V, E). bestEval V)
        (pvsMaxLoop depthProbe chess (pawnEnding WHITE) 5 (cbHash (pawnEnding WHITE)) 0 nullMove 0
           [(0, d4d5)] 12 loopStart (newEngine (pawnEnding WHITE))) = Some 4"
  by (intro conjI pawnEnding_white_count pawnEnding_white_moves(2) pawnEnding_white_table
        depthProbe_loop)


end
